theory Spec2Isabelle
  imports Main "HOL-Library.Word"
begin

unbundle bit_operations_syntax

section \<open>Machine types and abnormal termination\<close>

type_synonym u8 = "8 word"
type_synonym u16 = "16 word"
type_synonym u32 = "32 word"
type_synonym u64 = "64 word"

text \<open>
  Modelled from the spec: \<^verbatim>\<open>MV_PANIC\<close> and \<^verbatim>\<open>MV_ASSERT\<close> (logger.h) are not
  under src/; section 7 calls every such failure a hard abort, so both are outcomes that
  stop the operation at once, with the host left as it is at that point. \<open>Undefined\<close>
  is a read or write outside an array, where C++ promises nothing.
\<close>

datatype abort = MV_PANIC string | MV_ASSERT string | Undefined string

section \<open>The host: descriptors, reactor, memory manager and the effect trace\<close>

datatype ioctl_request =
    VFIO_GROUP_GET_STATUS
  | VFIO_GET_API_VERSION
  | VFIO_CHECK_EXTENSION nat
  | VFIO_GROUP_SET_CONTAINER int
  | VFIO_SET_IOMMU nat
  | VFIO_IOMMU_GET_INFO nat
  | VFIO_IOMMU_MAP_DMA u32 u64 u64 u64
  | VFIO_IOMMU_UNMAP_DMA u64 u64
  | VFIO_GROUP_GET_DEVICE_FD string
  | VFIO_DEVICE_GET_INFO
  | VFIO_DEVICE_GET_REGION_INFO nat nat
  | VFIO_DEVICE_GET_IRQ_INFO nat
  | VFIO_DEVICE_SET_IRQS u32 nat nat nat int
  | VFIO_DEVICE_RESET
  | VFIO_DEVICE_QUERY_GFX_PLANE u32

text \<open>
  Every call that leaves the device object is appended to the trace with its arguments
  and its result: \<open>Ioctl fd request ret\<close>, \<open>Pwrite fd bytes offset ret\<close>,
  \<open>Mmap length prot fd offset address\<close>, and so on.
\<close>

datatype event =
    Readlink string
  | Open string int
  | Close int
  | Ioctl int ioctl_request int
  | Pread int nat u64 int
  | Pwrite int "u8 list" u64 int
  | Mmap u64 nat int u64 u64
  | Munmap u64 u64
  | Eventfd int
  | StartPolling int
  | StopPolling int
  | RegisterMemoryListener nat
  | UnregisterMemoryListener nat
  | PciDevice_Connect
  | PciDevice_Disconnect

datatype memory_type = kMemoryTypeRam | kMemoryTypeOther nat

record memory_slot =
  slot_begin :: u64
  slot_end :: u64
  slot_hva :: u64
  slot_region_type :: memory_type

record host =
  open_fds :: "int list"
  polling :: "int list"
  listeners :: "nat list"
  trace :: "event list"

text \<open>The kernel's replies to the variable-length VFIO queries, already parsed.\<close>

datatype iommu_cap = VFIO_IOMMU_TYPE1_INFO_CAP_MIGRATION u64 | iommu_cap_other nat

record vfio_iommu_type1_info =
  iommu_argsz :: nat
  iommu_flags :: u32
  iommu_cap_offset :: u32
  iommu_caps :: "iommu_cap list"

record vfio_device_info =
  info_flags :: u32
  num_regions :: nat
  num_irqs :: nat

datatype region_cap =
    VFIO_REGION_INFO_CAP_SPARSE_MMAP "(u64 \<times> u64) list"
  | VFIO_REGION_INFO_CAP_TYPE u32 u32
  | region_cap_other nat

record vfio_region_info =
  ri_argsz :: nat
  ri_flags :: u32
  ri_cap_offset :: u32
  ri_size :: u64
  ri_offset :: u64
  ri_caps :: "region_cap list"

record vfio_irq_info =
  irq_flags :: u32
  irq_count :: nat

text \<open>
  What the environment answers. The answers are data of the run, not of the device:
  the device functions below take them as a parameter and never change them.
\<close>

record env =
  readlink_result :: "string \<Rightarrow> string option"
  open_succeeds :: "string \<Rightarrow> bool"
  ioctl_result :: "int \<Rightarrow> ioctl_request \<Rightarrow> int"
  group_status_flags :: u32
  iommu_info_reply :: "nat \<Rightarrow> vfio_iommu_type1_info"
  device_info_reply :: vfio_device_info
  region_info_reply :: "nat \<Rightarrow> nat \<Rightarrow> vfio_region_info"
  irq_info_reply :: "nat \<Rightarrow> vfio_irq_info"
  pread_result :: "int \<Rightarrow> nat \<Rightarrow> u64 \<Rightarrow> u8 list option"
  pwrite_result :: "int \<Rightarrow> u8 list \<Rightarrow> u64 \<Rightarrow> int"
  mmap_result :: "u64 \<Rightarrow> nat \<Rightarrow> int \<Rightarrow> u64 \<Rightarrow> u64"
  eventfd_succeeds :: bool
  flat_view :: "memory_slot list"

definition log_event :: "host \<Rightarrow> event \<Rightarrow> host" where
  "log_event h e = h\<lparr>trace := trace h @ [e]\<rparr>"

text \<open>
  A new descriptor is the lowest number that is not open (POSIX \<^verbatim>\<open>open\<close>; Linux
  allocates \<^verbatim>\<open>eventfd\<close> and the VFIO device descriptor the same way).
\<close>

definition lowest_free :: "int list \<Rightarrow> int" where
  "lowest_free fds = int (hd (filter (\<lambda>n. int n \<notin> set fds) [0 ..< Suc (length fds)]))"

definition new_fd :: "host \<Rightarrow> int \<times> host" where
  "new_fd h = (let fd = lowest_free (open_fds h) in (fd, h\<lparr>open_fds := fd # open_fds h\<rparr>))"

definition sys_open :: "env \<Rightarrow> host \<Rightarrow> string \<Rightarrow> int \<times> host" where
  "sys_open ev h path =
     (if open_succeeds ev path
      then (let (fd, h1) = new_fd h in (fd, log_event h1 (Open path fd)))
      else (-1, log_event h (Open path (-1))))"

definition sys_close :: "host \<Rightarrow> int \<Rightarrow> host" where
  "sys_close h fd = log_event (h\<lparr>open_fds := removeAll fd (open_fds h)\<rparr>) (Close fd)"

text \<open>An ioctl on a descriptor that is not open fails (EBADF).\<close>

definition sys_ioctl :: "env \<Rightarrow> host \<Rightarrow> int \<Rightarrow> ioctl_request \<Rightarrow> int \<times> host" where
  "sys_ioctl ev h fd req =
     (let ret = (if fd \<in> set (open_fds h) then ioctl_result ev fd req else -1)
      in (ret, log_event h (Ioctl fd req ret)))"

definition sys_get_device_fd :: "env \<Rightarrow> host \<Rightarrow> int \<Rightarrow> string \<Rightarrow> int \<times> host" where
  "sys_get_device_fd ev h fd name =
     (if fd \<in> set (open_fds h) \<and> 0 \<le> ioctl_result ev fd (VFIO_GROUP_GET_DEVICE_FD name)
      then (let (dfd, h1) = new_fd h
            in (dfd, log_event h1 (Ioctl fd (VFIO_GROUP_GET_DEVICE_FD name) dfd)))
      else (-1, log_event h (Ioctl fd (VFIO_GROUP_GET_DEVICE_FD name) (-1))))"

definition sys_eventfd :: "env \<Rightarrow> host \<Rightarrow> int \<times> host" where
  "sys_eventfd ev h =
     (if eventfd_succeeds ev
      then (let (fd, h1) = new_fd h in (fd, log_event h1 (Eventfd fd)))
      else (-1, log_event h (Eventfd (-1))))"

text \<open>
  \<^verbatim>\<open>pread\<close> fails with -1, or returns the bytes it read, at most \<open>len\<close> of them.
\<close>

definition sys_pread :: "env \<Rightarrow> host \<Rightarrow> int \<Rightarrow> nat \<Rightarrow> u64 \<Rightarrow> (int \<times> u8 list) \<times> host" where
  "sys_pread ev h fd len off =
     (let r = (if fd \<in> set (open_fds h) then pread_result ev fd len off else None);
          bytes = (case r of None \<Rightarrow> [] | Some bs \<Rightarrow> take len bs);
          ret = (case r of None \<Rightarrow> - 1 | Some bs \<Rightarrow> int (length bytes))
      in ((ret, bytes), log_event h (Pread fd len off ret)))"

definition sys_pwrite :: "env \<Rightarrow> host \<Rightarrow> int \<Rightarrow> u8 list \<Rightarrow> u64 \<Rightarrow> int \<times> host" where
  "sys_pwrite ev h fd bytes off =
     (let ret = (if fd \<in> set (open_fds h) then pwrite_result ev fd bytes off else -1)
      in (ret, log_event h (Pwrite fd bytes off ret)))"

definition MAP_FAILED :: u64 where
  "MAP_FAILED = - 1"

definition sys_mmap :: "env \<Rightarrow> host \<Rightarrow> u64 \<Rightarrow> nat \<Rightarrow> int \<Rightarrow> u64 \<Rightarrow> u64 \<times> host" where
  "sys_mmap ev h len prot fd off =
     (let addr = (if fd \<in> set (open_fds h) then mmap_result ev len prot fd off else MAP_FAILED)
      in (addr, log_event h (Mmap len prot fd off addr)))"

definition sys_munmap :: "host \<Rightarrow> u64 \<Rightarrow> u64 \<Rightarrow> host" where
  "sys_munmap h addr len = log_event h (Munmap addr len)"

definition StartPolling_io :: "host \<Rightarrow> int \<Rightarrow> host" where
  "StartPolling_io h fd = log_event (h\<lparr>polling := fd # polling h\<rparr>) (StartPolling fd)"

definition StopPolling_io :: "host \<Rightarrow> int \<Rightarrow> host" where
  "StopPolling_io h fd = log_event (h\<lparr>polling := removeAll fd (polling h)\<rparr>) (StopPolling fd)"

definition RegisterMemoryListener_mm :: "host \<Rightarrow> nat \<times> host" where
  "RegisterMemoryListener_mm h =
     (let l = Suc (fold max (listeners h) 0)
      in (l, log_event (h\<lparr>listeners := l # listeners h\<rparr>) (RegisterMemoryListener l)))"

definition UnregisterMemoryListener_mm :: "host \<Rightarrow> nat \<Rightarrow> host" where
  "UnregisterMemoryListener_mm h l =
     log_event (h\<lparr>listeners := removeAll l (listeners h)\<rparr>) (UnregisterMemoryListener l)"

section \<open>The device object\<close>

datatype IoResourceType = kIoResourceTypePio | kIoResourceTypeMmio | kIoResourceTypeRam

record IoResource =
  ir_type :: IoResourceType
  ir_base :: u64
  ir_length :: u64
  ir_host_memory :: "u64 option"
  ir_name :: string

record mmap_area =
  area_offset :: u64
  area_size :: u64
  area_mmap :: u64

record vfio_region =
  region_index :: nat
  region_flags :: u32
  region_offset :: u64
  region_size :: u64
  region_type :: u32
  region_subtype :: u32
  mmap_areas :: "mmap_area list"

record PciBar =
  bar_type :: IoResourceType
  bar_size :: u64
  bar_address :: u64
  bar_host_memory :: u64

record MsiConfig =
  msi_is_64bit :: bool
  msi_offset :: nat
  msi_is_msix :: bool
  msi_length :: nat
  msi_enabled :: bool
  msi64 :: "nat option"

text \<open>
  \<open>pci_header\<close> is the 256 bytes of \<^verbatim>\<open>pci_header_.data\<close>; \<open>msi64\<close> is the
  offset in it that the C++ pointer \<^verbatim>\<open>msi_config_.msi64\<close> points to, \<open>None\<close> for the
  null pointer. \<open>regions\<close> and \<open>interrupts\<close> are the fixed-size arrays
  \<^verbatim>\<open>regions_\<close> and \<^verbatim>\<open>interrupts_\<close> (an entry of \<open>interrupts\<close> is its
  \<^verbatim>\<open>event_fd\<close>); their sizes \<^verbatim>\<open>MAX_VFIO_REGIONS\<close> and
  \<^verbatim>\<open>MAX_VFIO_INTERRUPTS\<close> are the lengths of the lists.
\<close>

record VfioPci =
  sysfs_path :: string
  group_id :: int
  group_fd :: int
  container_fd :: int
  device_fd :: int
  device_name :: string
  device_info :: vfio_device_info
  regions :: "vfio_region list"
  interrupts :: "int list"
  memory_listener :: "nat option"
  pci_header :: "u8 list"
  pci_bars :: "PciBar list"
  msi_config :: MsiConfig
  io_resources :: "IoResource list"

type_synonym 'a result = "(abort \<times> host) + 'a"

definition bind_r :: "'a result \<Rightarrow> ('a \<Rightarrow> 'b result) \<Rightarrow> 'b result" where
  "bind_r m f = (case m of Inl e \<Rightarrow> Inl e | Inr x \<Rightarrow> f x)"

section \<open>DMA mirror\<close>

definition VFIO_DMA_MAP_FLAG_READ :: u32 where "VFIO_DMA_MAP_FLAG_READ = 1"
definition VFIO_DMA_MAP_FLAG_WRITE :: u32 where "VFIO_DMA_MAP_FLAG_WRITE = 2"

definition MapDmaPages :: "env \<Rightarrow> VfioPci \<Rightarrow> host \<Rightarrow> memory_slot \<Rightarrow> host result" where
  "MapDmaPages ev d h slot =
     (let dma_map = VFIO_IOMMU_MAP_DMA (VFIO_DMA_MAP_FLAG_READ OR VFIO_DMA_MAP_FLAG_WRITE)
                      (slot_hva slot) (slot_begin slot) (slot_end slot - slot_begin slot);
          (ret, h1) = sys_ioctl ev h (container_fd d) dma_map
      in if ret < 0 then Inl (MV_PANIC ''failed to map'', h1) else Inr h1)"

definition UnmapDmaPages :: "env \<Rightarrow> VfioPci \<Rightarrow> host \<Rightarrow> memory_slot \<Rightarrow> host result" where
  "UnmapDmaPages ev d h slot =
     (let dma_ummap = VFIO_IOMMU_UNMAP_DMA (slot_begin slot) (slot_end slot - slot_begin slot);
          (ret, h1) = sys_ioctl ev h (container_fd d) dma_ummap
      in Inr h1)"

text \<open>The memory listener that \<^verbatim>\<open>SetupDmaMaps\<close> registers.\<close>

definition dma_listener :: "env \<Rightarrow> VfioPci \<Rightarrow> host \<Rightarrow> memory_slot \<Rightarrow> bool \<Rightarrow> host result" where
  "dma_listener ev d h slot unmap =
     (if slot_region_type slot = kMemoryTypeRam
      then (if unmap then UnmapDmaPages ev d h slot else MapDmaPages ev d h slot)
      else Inr h)"

fun map_ram_slots :: "env \<Rightarrow> VfioPci \<Rightarrow> host \<Rightarrow> memory_slot list \<Rightarrow> host result" where
  "map_ram_slots ev d h [] = Inr h"
| "map_ram_slots ev d h (slot # slots) =
     (if slot_region_type slot = kMemoryTypeRam
      then bind_r (MapDmaPages ev d h slot) (\<lambda>h1. map_ram_slots ev d h1 slots)
      else map_ram_slots ev d h slots)"

definition SetupDmaMaps :: "env \<Rightarrow> VfioPci \<Rightarrow> host \<Rightarrow> (VfioPci \<times> host) result" where
  "SetupDmaMaps ev d h =
     bind_r (map_ram_slots ev d h (flat_view ev))
       (\<lambda>h1. let (l, h2) = RegisterMemoryListener_mm h1
             in Inr (d\<lparr>memory_listener := Some l\<rparr>, h2))"

section \<open>Strings of the attach path\<close>

text \<open>GNU \<^verbatim>\<open>basename\<close>: what follows the last slash.\<close>

definition basename_gnu :: "string \<Rightarrow> string" where
  "basename_gnu p = rev (takeWhile (\<lambda>c. c \<noteq> CHR ''/'') (rev p))"

definition isspace_c :: "char \<Rightarrow> bool" where
  "isspace_c c = (of_char c \<in> {32 :: nat, 9, 10, 11, 12, 13})"

definition isdigit_c :: "char \<Rightarrow> bool" where
  "isdigit_c c = (48 \<le> (of_char c :: nat) \<and> (of_char c :: nat) \<le> 57)"

definition digits_value :: "string \<Rightarrow> nat" where
  "digits_value ds = foldl (\<lambda>a c. 10 * a + (of_char c - 48)) 0 ds"

text \<open>
  \<^verbatim>\<open>sscanf(s, "%d", &n) == 1\<close>: white space, an optional sign, at least one digit.
  The digits are converted as \<^verbatim>\<open>strtol\<close> converts them (glibc), saturating at the
  range of a 64-bit \<^verbatim>\<open>long\<close>, and the low 32 bits are stored in the \<^verbatim>\<open>int\<close>.
\<close>

definition sscanf_d :: "string \<Rightarrow> int option" where
  "sscanf_d s =
     (let s1 = dropWhile isspace_c s;
          neg = (s1 \<noteq> [] \<and> hd s1 = CHR ''-'');
          s2 = (if s1 \<noteq> [] \<and> (hd s1 = CHR ''-'' \<or> hd s1 = CHR ''+'') then tl s1 else s1);
          ds = takeWhile isdigit_c s2;
          v = (if neg then - int (digits_value ds) else int (digits_value ds));
          l = max (- (2 ^ 63)) (min v (2 ^ 63 - 1))
      in if ds = [] then None else Some (sint (word_of_int l :: u32)))"

fun string_of_nat :: "nat \<Rightarrow> string" where
  "string_of_nat n =
     (if n < 10 then [char_of (48 + n)]
      else string_of_nat (n div 10) @ [char_of (48 + n mod 10)])"

definition sprintf_d :: "int \<Rightarrow> string" where
  "sprintf_d i = (if i < 0 then CHR ''-'' # string_of_nat (nat (- i)) else string_of_nat (nat i))"

section \<open>Attach: group, container, device\<close>

definition VFIO_GROUP_FLAGS_VIABLE :: u32 where "VFIO_GROUP_FLAGS_VIABLE = 1"
definition VFIO_API_VERSION :: int where "VFIO_API_VERSION = 0"
definition VFIO_TYPE1v2_IOMMU :: nat where "VFIO_TYPE1v2_IOMMU = 3"
definition VFIO_IOMMU_INFO_CAPS :: u32 where "VFIO_IOMMU_INFO_CAPS = 2"
definition PAGE_SIZE :: u64 where "PAGE_SIZE = 4096"
definition VFIO_DEVICE_FLAGS_RESET :: u32 where "VFIO_DEVICE_FLAGS_RESET = 1"
definition VFIO_DEVICE_FLAGS_PCI :: u32 where "VFIO_DEVICE_FLAGS_PCI = 2"
definition VFIO_PCI_BAR0_REGION_INDEX :: nat where "VFIO_PCI_BAR0_REGION_INDEX = 0"
definition VFIO_PCI_ROM_REGION_INDEX :: nat where "VFIO_PCI_ROM_REGION_INDEX = 6"
definition VFIO_PCI_CONFIG_REGION_INDEX :: nat where "VFIO_PCI_CONFIG_REGION_INDEX = 7"
definition VFIO_PCI_MSI_IRQ_INDEX :: nat where "VFIO_PCI_MSI_IRQ_INDEX = 1"
definition VFIO_PCI_MSIX_IRQ_INDEX :: nat where "VFIO_PCI_MSIX_IRQ_INDEX = 2"
definition VFIO_REGION_INFO_FLAG_READ :: u32 where "VFIO_REGION_INFO_FLAG_READ = 1"
definition VFIO_REGION_INFO_FLAG_WRITE :: u32 where "VFIO_REGION_INFO_FLAG_WRITE = 2"
definition VFIO_REGION_INFO_FLAG_MMAP :: u32 where "VFIO_REGION_INFO_FLAG_MMAP = 4"
definition VFIO_REGION_INFO_FLAG_CAPS :: u32 where "VFIO_REGION_INFO_FLAG_CAPS = 8"
definition VFIO_IRQ_INFO_EVENTFD :: u32 where "VFIO_IRQ_INFO_EVENTFD = 1"
definition sizeof_vfio_iommu_type1_info :: nat where "sizeof_vfio_iommu_type1_info = 24"
definition sizeof_vfio_region_info :: nat where "sizeof_vfio_region_info = 32"

definition SetupVfioGroup :: "env \<Rightarrow> VfioPci \<Rightarrow> host \<Rightarrow> (VfioPci \<times> host) result" where
  "SetupVfioGroup ev d h =
     (let h1 = log_event h (Readlink (sysfs_path d @ ''/iommu_group''))
      in case readlink_result ev (sysfs_path d @ ''/iommu_group'') of
           None \<Rightarrow> Inl (MV_PANIC ''failed to read iommu_group'', h1)
         | Some link \<Rightarrow>
             if 1024 \<le> length link then Inl (Undefined ''path[len] = 0 with len = 1024'', h1)
             else (case sscanf_d (basename_gnu link) of
                 None \<Rightarrow> Inl (MV_PANIC ''failed to get group id'', h1)
               | Some gid \<Rightarrow>
                   (let (fd, h2) = sys_open ev h1 (''/dev/vfio/'' @ sprintf_d gid);
                        d1 = d\<lparr>group_id := gid, group_fd := fd\<rparr>
                    in if fd < 0 then Inl (MV_PANIC ''failed to open group'', h2)
                       else (let (ret, h3) = sys_ioctl ev h2 fd VFIO_GROUP_GET_STATUS
                             in if ret \<noteq> 0
                                then Inl (MV_ASSERT ''ioctl(group_fd_, VFIO_GROUP_GET_STATUS, &status) == 0'', h3)
                                else if group_status_flags ev AND VFIO_GROUP_FLAGS_VIABLE = 0
                                then Inl (MV_PANIC ''VFIO group is not viable'', h3)
                                else Inr (d1, h3)))))"

fun check_iommu_caps :: "iommu_cap list \<Rightarrow> bool" where
  "check_iommu_caps [] = True"
| "check_iommu_caps (VFIO_IOMMU_TYPE1_INFO_CAP_MIGRATION pgsize_bitmap # caps) =
     (pgsize_bitmap AND PAGE_SIZE \<noteq> 0 \<and> check_iommu_caps caps)"
| "check_iommu_caps (iommu_cap_other n # caps) = check_iommu_caps caps"

text \<open>
  One \<^verbatim>\<open>MV_ASSERT(ioctl(fd, request) == expected)\<close>; with \<open>nonzero = True\<close> it is
  \<^verbatim>\<open>MV_ASSERT(ioctl(fd, request))\<close>.
\<close>

definition assert_ioctl :: "env \<Rightarrow> host \<Rightarrow> int \<Rightarrow> ioctl_request \<Rightarrow> bool \<Rightarrow> int \<Rightarrow> string \<Rightarrow> host result" where
  "assert_ioctl ev h fd req nonzero expected msg =
     (let (ret, h1) = sys_ioctl ev h fd req
      in if (if nonzero then ret \<noteq> 0 else ret = expected) then Inr h1
         else Inl (MV_ASSERT msg, h1))"

definition SetupVfioContainer :: "env \<Rightarrow> VfioPci \<Rightarrow> host \<Rightarrow> (VfioPci \<times> host) result" where
  "SetupVfioContainer ev d h =
     (let (fd, h1) = sys_open ev h ''/dev/vfio/vfio'';
          d1 = d\<lparr>container_fd := fd\<rparr>
      in if fd < 0 then Inl (MV_PANIC ''failed to open /dev/vfio/vfio'', h1)
      else
        bind_r (assert_ioctl ev h1 fd VFIO_GET_API_VERSION False VFIO_API_VERSION ''VFIO_GET_API_VERSION'') (\<lambda>h2.
        bind_r (assert_ioctl ev h2 fd (VFIO_CHECK_EXTENSION VFIO_TYPE1v2_IOMMU) True 0 ''VFIO_CHECK_EXTENSION'') (\<lambda>h3.
        bind_r (assert_ioctl ev h3 (group_fd d1) (VFIO_GROUP_SET_CONTAINER fd) False 0 ''VFIO_GROUP_SET_CONTAINER'') (\<lambda>h4.
        bind_r (assert_ioctl ev h4 fd (VFIO_SET_IOMMU VFIO_TYPE1v2_IOMMU) False 0 ''VFIO_SET_IOMMU'') (\<lambda>h5.
        bind_r (assert_ioctl ev h5 fd (VFIO_IOMMU_GET_INFO sizeof_vfio_iommu_type1_info) False 0 ''VFIO_IOMMU_GET_INFO'') (\<lambda>h6.
        let info = iommu_info_reply ev sizeof_vfio_iommu_type1_info
        in bind_r (if iommu_argsz info \<noteq> sizeof_vfio_iommu_type1_info
                   then bind_r (assert_ioctl ev h6 fd (VFIO_IOMMU_GET_INFO (iommu_argsz info)) False 0 ''VFIO_IOMMU_GET_INFO'')
                          (\<lambda>h7. Inr (iommu_info_reply ev (iommu_argsz info), h7))
                   else Inr (info, h6))
             (\<lambda>(info2, h7).
                if iommu_flags info2 AND VFIO_IOMMU_INFO_CAPS \<noteq> 0 \<and> iommu_cap_offset info2 \<noteq> 0
                   \<and> \<not> check_iommu_caps (iommu_caps info2)
                then Inl (MV_ASSERT ''cap_migration->pgsize_bitmap & PAGE_SIZE'', h7)
                else Inr (d1, h7))))))))"

definition empty_region :: vfio_region where
  "empty_region = \<lparr>region_index = 0, region_flags = 0, region_offset = 0, region_size = 0,
     region_type = 0, region_subtype = 0, mmap_areas = []\<rparr>"

fun apply_region_caps :: "vfio_region \<Rightarrow> region_cap list \<Rightarrow> vfio_region" where
  "apply_region_caps region [] = region"
| "apply_region_caps region (VFIO_REGION_INFO_CAP_SPARSE_MMAP areas # caps) =
     apply_region_caps
       (region\<lparr>mmap_areas := mmap_areas region @
           map (\<lambda>(off, sz). \<lparr>area_offset = off, area_size = sz, area_mmap = 0\<rparr>) areas\<rparr>) caps"
| "apply_region_caps region (VFIO_REGION_INFO_CAP_TYPE ty sub # caps) =
     apply_region_caps (region\<lparr>region_type := ty, region_subtype := sub\<rparr>) caps"
| "apply_region_caps region (region_cap_other n # caps) = apply_region_caps region caps"

definition get_region_info :: "env \<Rightarrow> host \<Rightarrow> int \<Rightarrow> nat \<Rightarrow> (vfio_region_info \<times> host) result" where
  "get_region_info ev h fd index =
     bind_r (assert_ioctl ev h fd (VFIO_DEVICE_GET_REGION_INFO index sizeof_vfio_region_info) False 0
               ''VFIO_DEVICE_GET_REGION_INFO'') (\<lambda>h1.
     let info = region_info_reply ev index sizeof_vfio_region_info
     in if ri_argsz info \<noteq> sizeof_vfio_region_info
        then bind_r (assert_ioctl ev h1 fd (VFIO_DEVICE_GET_REGION_INFO index (ri_argsz info)) False 0
                       ''VFIO_DEVICE_GET_REGION_INFO'')
               (\<lambda>h2. Inr (region_info_reply ev index (ri_argsz info), h2))
        else Inr (info, h1))"

definition store_region :: "vfio_region list \<Rightarrow> nat \<Rightarrow> vfio_region_info \<Rightarrow> vfio_region list" where
  "store_region rs index info =
     (if ri_size info = 0 then rs
      else if length rs \<le> index then rs
      else (let region = (rs ! index)\<lparr>region_index := index, region_flags := ri_flags info,
                            region_offset := ri_offset info, region_size := ri_size info\<rparr>
            in rs[index := (if ri_flags info AND VFIO_REGION_INFO_FLAG_CAPS \<noteq> 0 \<and> ri_cap_offset info \<noteq> 0
                            then apply_region_caps region (ri_caps info) else region)]))"

fun find_regions :: "env \<Rightarrow> VfioPci \<Rightarrow> host \<Rightarrow> nat list \<Rightarrow> (VfioPci \<times> host) result" where
  "find_regions ev d h [] = Inr (d, h)"
| "find_regions ev d h (index # rest) =
     bind_r (get_region_info ev h (device_fd d) index)
       (\<lambda>(info, h1). find_regions ev (d\<lparr>regions := store_region (regions d) index info\<rparr>) h1 rest)"

fun find_interrupts :: "env \<Rightarrow> VfioPci \<Rightarrow> host \<Rightarrow> nat list \<Rightarrow> host result" where
  "find_interrupts ev d h [] = Inr h"
| "find_interrupts ev d h (index # rest) =
     (let (ret, h1) = sys_ioctl ev h (device_fd d) (VFIO_DEVICE_GET_IRQ_INFO index);
          irq_info = (if ret = 0 then irq_info_reply ev index else \<lparr>irq_flags = 0, irq_count = 0\<rparr>)
      in if index = VFIO_PCI_MSI_IRQ_INDEX \<and> irq_count irq_info \<noteq> 1
         then Inl (MV_ASSERT ''irq_info.count == 1'', h1)
         else if index = VFIO_PCI_MSI_IRQ_INDEX \<and> irq_flags irq_info AND VFIO_IRQ_INFO_EVENTFD = 0
         then Inl (MV_ASSERT ''irq_info.flags & VFIO_IRQ_INFO_EVENTFD'', h1)
         else find_interrupts ev d h1 rest)"

definition SetupVfioDevice :: "env \<Rightarrow> VfioPci \<Rightarrow> host \<Rightarrow> (VfioPci \<times> host) result" where
  "SetupVfioDevice ev d h =
     (let name = basename_gnu (sysfs_path d);
          (fd, h1) = sys_get_device_fd ev h (group_fd d) name;
          d1 = d\<lparr>device_name := name, device_fd := fd\<rparr>
      in bind_r (assert_ioctl ev h1 fd VFIO_DEVICE_GET_INFO False 0 ''VFIO_DEVICE_GET_INFO'') (\<lambda>h2.
         let info = device_info_reply ev;
             d2 = d1\<lparr>device_info := info\<rparr>
         in if info_flags info AND VFIO_DEVICE_FLAGS_RESET = 0
            then Inl (MV_ASSERT ''device_info_.flags & VFIO_DEVICE_FLAGS_RESET'', h2)
            else if info_flags info AND VFIO_DEVICE_FLAGS_PCI = 0
            then Inl (MV_ASSERT ''device_info_.flags & VFIO_DEVICE_FLAGS_PCI'', h2)
            else if \<not> VFIO_PCI_CONFIG_REGION_INDEX < num_regions info
            then Inl (MV_ASSERT ''device_info_.num_regions > VFIO_PCI_CONFIG_REGION_INDEX'', h2)
            else if \<not> VFIO_PCI_MSIX_IRQ_INDEX < num_irqs info
            then Inl (MV_ASSERT ''device_info_.num_irqs > VFIO_PCI_MSIX_IRQ_INDEX'', h2)
            else
              bind_r (find_regions ev (d2\<lparr>regions := map (\<lambda>r. empty_region) (regions d2)\<rparr>) h2
                        [VFIO_PCI_BAR0_REGION_INDEX ..< num_regions info]) (\<lambda>(d3, h3).
              let d4 = d3\<lparr>interrupts := map (\<lambda>i. -1) (interrupts d3)\<rparr>
              in bind_r (find_interrupts ev d4 h3 [0 ..< num_irqs info]) (\<lambda>h4. Inr (d4, h4)))))"

section \<open>The config header\<close>

text \<open>
  Modelled from the spec: \<^verbatim>\<open>PciConfigHeader\<close> (pci_device.h) is not under src/; the
  spec fixes it as the standard Type-0 header of 256 bytes, little-endian, so the
  fields the code names are read and written at their standard offsets. The constants
  are those of \<^verbatim>\<open>linux/pci_regs.h\<close>.
\<close>

definition PCI_DEVICE_CONFIG_SIZE :: nat where "PCI_DEVICE_CONFIG_SIZE = 256"
definition PCI_MULTI_FUNCTION :: u8 where "PCI_MULTI_FUNCTION = 0x80"
definition PCI_HEADER_TYPE_NORMAL :: u8 where "PCI_HEADER_TYPE_NORMAL = 0"
definition PCI_BASE_ADDRESS_SPACE_IO :: u32 where "PCI_BASE_ADDRESS_SPACE_IO = 0x01"
definition PCI_BASE_ADDRESS_MEM_TYPE_64 :: u32 where "PCI_BASE_ADDRESS_MEM_TYPE_64 = 0x04"
definition PCI_STATUS_CAP_LIST :: u16 where "PCI_STATUS_CAP_LIST = 0x10"
definition PCI_CAP_ID_MSI :: u8 where "PCI_CAP_ID_MSI = 0x05"
definition PCI_CAP_ID_VNDR :: u8 where "PCI_CAP_ID_VNDR = 0x09"
definition PCI_CAP_ID_MSIX :: u8 where "PCI_CAP_ID_MSIX = 0x11"
definition PCI_MSI_FLAGS :: nat where "PCI_MSI_FLAGS = 2"
definition PCI_MSI_FLAGS_ENABLE :: u16 where "PCI_MSI_FLAGS_ENABLE = 0x0001"
definition PCI_MSI_FLAGS_QSIZE :: u16 where "PCI_MSI_FLAGS_QSIZE = 0x0070"
definition PCI_MSI_FLAGS_64BIT :: u16 where "PCI_MSI_FLAGS_64BIT = 0x0080"
definition PCI_MSI_FLAGS_MASKBIT :: u16 where "PCI_MSI_FLAGS_MASKBIT = 0x0100"
definition sizeof_MsiCapability64 :: nat where "sizeof_MsiCapability64 = 14"

definition get_u16 :: "u8 list \<Rightarrow> nat \<Rightarrow> u16" where
  "get_u16 data i = ucast (data ! i) OR push_bit 8 (ucast (data ! (i + 1)))"

definition get_u32 :: "u8 list \<Rightarrow> nat \<Rightarrow> u32" where
  "get_u32 data i = ucast (data ! i) OR push_bit 8 (ucast (data ! (i + 1)))
       OR push_bit 16 (ucast (data ! (i + 2))) OR push_bit 24 (ucast (data ! (i + 3)))"

definition set_u32 :: "u8 list \<Rightarrow> nat \<Rightarrow> u32 \<Rightarrow> u8 list" where
  "set_u32 data i v = data[i := ucast v, i + 1 := ucast (drop_bit 8 v),
       i + 2 := ucast (drop_bit 16 v), i + 3 := ucast (drop_bit 24 v)]"

definition header_status :: "u8 list \<Rightarrow> u16" where
  "header_status data = get_u16 data 0x06"

definition class_code :: "u8 list \<Rightarrow> u32" where
  "class_code data = ucast (data ! 0x09) OR push_bit 8 (ucast (data ! 0x0A))
       OR push_bit 16 (ucast (data ! 0x0B))"

definition set_class_code :: "u8 list \<Rightarrow> u32 \<Rightarrow> u8 list" where
  "set_class_code data v = data[0x09 := ucast v, 0x0A := ucast (drop_bit 8 v),
       0x0B := ucast (drop_bit 16 v)]"

definition header_type :: "u8 list \<Rightarrow> u8" where
  "header_type data = data ! 0x0E"

definition set_header_type :: "u8 list \<Rightarrow> u8 \<Rightarrow> u8 list" where
  "set_header_type data v = data[0x0E := v]"

definition bars :: "u8 list \<Rightarrow> nat \<Rightarrow> u32" where
  "bars data i = get_u32 data (0x10 + 4 * i)"

definition set_bars :: "u8 list \<Rightarrow> nat \<Rightarrow> u32 \<Rightarrow> u8 list" where
  "set_bars data i v = set_u32 data (0x10 + 4 * i) v"

definition capability :: "u8 list \<Rightarrow> u8" where
  "capability data = data ! 0x34"

definition irq_pin :: "u8 list \<Rightarrow> u8" where
  "irq_pin data = data ! 0x3D"

definition set_irq_pin :: "u8 list \<Rightarrow> u8 \<Rightarrow> u8 list" where
  "set_irq_pin data v = data[0x3D := v]"

section \<open>Config-space synthesis\<close>

text \<open>
  The header after the three fixed rewrites of \<^verbatim>\<open>SetupPciConfiguration\<close>:
  \<^verbatim>\<open>irq_pin = 0\<close>, \<^verbatim>\<open>header_type &= ~PCI_MULTI_FUNCTION\<close>,
  \<^verbatim>\<open>class_code = 0x030200\<close>.
\<close>

definition sanitized :: "u8 list \<Rightarrow> u8 list" where
  "sanitized hdr0 = set_class_code
      (set_header_type (set_irq_pin hdr0 0) (header_type (set_irq_pin hdr0 0) AND NOT PCI_MULTI_FUNCTION))
      0x030200"

text \<open>
  Modelled from the spec: \<^verbatim>\<open>PciDevice::AddPciBar\<close> is not under src/; the spec says it
  registers a PCI BAR of the given size and IO/MMIO type with the bus model. It records
  both in \<^verbatim>\<open>pci_bars_[index]\<close>; an index outside the array is \<open>None\<close>.
\<close>

definition AddPciBar :: "VfioPci \<Rightarrow> nat \<Rightarrow> u64 \<Rightarrow> IoResourceType \<Rightarrow> VfioPci option" where
  "AddPciBar d index sz ty =
     (if index < length (pci_bars d)
      then Some (d\<lparr>pci_bars := (pci_bars d)[index := (pci_bars d ! index)\<lparr>bar_type := ty, bar_size := sz\<rparr>]\<rparr>)
      else None)"

fun setup_bars :: "VfioPci \<Rightarrow> nat list \<Rightarrow> abort + VfioPci" where
  "setup_bars d [] = Inr d"
| "setup_bars d (i # rest) =
     (if region_size (regions d ! i) = 0 then setup_bars d rest
      else if bars (pci_header d) i AND PCI_BASE_ADDRESS_SPACE_IO \<noteq> 0
      then (case AddPciBar d i (region_size (regions d ! i)) kIoResourceTypePio of
              None \<Rightarrow> Inl (Undefined ''pci_bars_[index]'')
            | Some d1 \<Rightarrow> setup_bars d1 rest)
      else (case AddPciBar
                   (if bars (pci_header d) i AND PCI_BASE_ADDRESS_MEM_TYPE_64 \<noteq> 0
                    then d\<lparr>pci_header := set_bars (pci_header d) i
                             (bars (pci_header d) i AND NOT PCI_BASE_ADDRESS_MEM_TYPE_64)\<rparr>
                    else d)
                   i (region_size (regions d ! i)) kIoResourceTypeMmio of
              None \<Rightarrow> Inl (Undefined ''pci_bars_[index]'')
            | Some d1 \<Rightarrow> setup_bars d1 rest))"

text \<open>
  The capability walk \<^verbatim>\<open>while (pos) { ...; pos = cap->next; }\<close>. A chain that loops
  never ends: the walk is a partial function and \<open>None\<close> is "does not return".
\<close>

partial_function (option) walk_capabilities :: "u8 list \<Rightarrow> MsiConfig \<Rightarrow> nat \<Rightarrow> (abort + MsiConfig) option" where
  "walk_capabilities data msi pos =
     (if pos = 0 then Some (Inr msi)
      else if length data \<le> pos then Some (Inl (Undefined ''cap->type outside pci_header_.data''))
      else if data ! pos = PCI_CAP_ID_MSI
      then (if length data \<le> pos + 3 then Some (Inl (Undefined ''msi_cap->control outside pci_header_.data''))
            else if get_u16 data (pos + 2) AND PCI_MSI_FLAGS_MASKBIT \<noteq> 0
            then Some (Inl (MV_ASSERT ''!(msi_cap->control & PCI_MSI_FLAGS_MASKBIT)''))
            else if get_u16 data (pos + 2) AND PCI_MSI_FLAGS_64BIT = 0
            then Some (Inl (MV_ASSERT ''msi_cap->control & PCI_MSI_FLAGS_64BIT''))
            else walk_capabilities data
                   (msi\<lparr>msi_is_64bit := True, msi_offset := pos, msi_is_msix := False,
                        msi_length := sizeof_MsiCapability64, msi64 := Some pos\<rparr>)
                   (unat (data ! (pos + 1))))
      else if data ! pos = PCI_CAP_ID_MSIX
      then Some (Inl (MV_PANIC ''FIXME: not implemented vfio msix''))
      else if length data \<le> pos + 1 then Some (Inl (Undefined ''cap->next outside pci_header_.data''))
      else walk_capabilities data msi (unat (data ! (pos + 1))))"

declare walk_capabilities.simps [code]

definition SetupPciConfiguration :: "env \<Rightarrow> VfioPci \<Rightarrow> host \<Rightarrow> (VfioPci \<times> host) result option" where
  "SetupPciConfiguration ev d h =
     (if length (regions d) \<le> VFIO_PCI_CONFIG_REGION_INDEX
      then Some (Inl (Undefined ''regions_[VFIO_PCI_CONFIG_REGION_INDEX]'', h))
      else if \<not> (of_nat PCI_DEVICE_CONFIG_SIZE \<le> region_size (regions d ! VFIO_PCI_CONFIG_REGION_INDEX))
      then Some (Inl (MV_ASSERT ''config_region.size >= config_size'', h))
      else
        (let config_region = regions d ! VFIO_PCI_CONFIG_REGION_INDEX;
             ((ret, bytes), h1) = sys_pread ev h (device_fd d) PCI_DEVICE_CONFIG_SIZE (region_offset config_region);
             hdr0 = take PCI_DEVICE_CONFIG_SIZE (bytes @ drop (length bytes) (pci_header d))
         in if ret < int PCI_DEVICE_CONFIG_SIZE
            then Some (Inl (MV_PANIC ''failed to read device config space'', h1))
            else
              (let hdr1 = set_irq_pin hdr0 0;
                   hdr2 = set_header_type hdr1 (header_type hdr1 AND NOT PCI_MULTI_FUNCTION)
               in if header_type hdr2 \<noteq> PCI_HEADER_TYPE_NORMAL
                  then Some (Inl (MV_ASSERT ''pci_header_.header_type == PCI_HEADER_TYPE_NORMAL'', h1))
                  else
                    (case setup_bars (d\<lparr>pci_header := set_class_code hdr2 0x030200\<rparr>)
                            [0 ..< VFIO_PCI_ROM_REGION_INDEX] of
                       Inl e \<Rightarrow> Some (Inl (e, h1))
                     | Inr d1 \<Rightarrow>
                         (case (if header_status (pci_header d1) AND PCI_STATUS_CAP_LIST \<noteq> 0
                                then walk_capabilities (pci_header d1) (msi_config d1)
                                       (unat (capability (pci_header d1) AND NOT 3))
                                else Some (Inr (msi_config d1))) of
                            None \<Rightarrow> None
                          | Some (Inl e) \<Rightarrow> Some (Inl (e, h1))
                          | Some (Inr msi) \<Rightarrow>
                              (let (wret, h2) = sys_pwrite ev h1 (device_fd d)
                                     (take PCI_DEVICE_CONFIG_SIZE (pci_header d1)) (region_offset config_region)
                               in Some (Inr (d1\<lparr>msi_config := msi\<rparr>, h2))))))))"

section \<open>MSI router and the rest of attach\<close>

definition VFIO_IRQ_SET_DATA_EVENTFD :: u32 where "VFIO_IRQ_SET_DATA_EVENTFD = 4"
definition VFIO_IRQ_SET_ACTION_TRIGGER :: u32 where "VFIO_IRQ_SET_ACTION_TRIGGER = 32"
definition VFIO_GFX_PLANE_TYPE_PROBE :: u32 where "VFIO_GFX_PLANE_TYPE_PROBE = 1"
definition VFIO_GFX_PLANE_TYPE_REGION :: u32 where "VFIO_GFX_PLANE_TYPE_REGION = 4"

text \<open>\<^verbatim>\<open>msi_config_.msi64->control\<close>: the pointer may be null or point past the header.\<close>

definition msi64_control :: "VfioPci \<Rightarrow> u16 option" where
  "msi64_control d =
     (case msi64 (msi_config d) of
        None \<Rightarrow> None
      | Some p \<Rightarrow> if p + 3 < length (pci_header d) then Some (get_u16 (pci_header d) (p + 2)) else None)"

definition nr_vectors_of :: "u16 \<Rightarrow> nat" where
  "nr_vectors_of control = 2 ^ unat (drop_bit 4 (control AND PCI_MSI_FLAGS_QSIZE))"

fun setup_vectors :: "env \<Rightarrow> VfioPci \<Rightarrow> host \<Rightarrow> nat list \<Rightarrow> (VfioPci \<times> host) result" where
  "setup_vectors ev d h [] = Inr (d, h)"
| "setup_vectors ev d h (vector # rest) =
     (if length (interrupts d) \<le> vector then Inl (Undefined ''interrupts_[vector]'', h)
      else (let (fd, h1) = sys_eventfd ev h;
                d1 = d\<lparr>interrupts := (interrupts d)[vector := fd]\<rparr>
            in if fd = - 1 then Inl (MV_ASSERT ''interrupt.event_fd != -1'', h1)
               else setup_vectors ev d1 (StartPolling_io h1 fd) rest))"

definition SetupPciInterrupts :: "env \<Rightarrow> VfioPci \<Rightarrow> host \<Rightarrow> (VfioPci \<times> host) result" where
  "SetupPciInterrupts ev d h =
     (if msi_is_msix (msi_config d) then Inl (MV_ASSERT ''!msi_config_.is_msix'', h)
      else if \<not> msi_is_64bit (msi_config d) then Inl (MV_ASSERT ''msi_config_.is_64bit'', h)
      else (case msi64_control d of
              None \<Rightarrow> Inl (Undefined ''msi_config_.msi64->control'', h)
            | Some control \<Rightarrow>
                if nr_vectors_of control \<noteq> 1 then Inl (MV_ASSERT ''nr_vectors == 1'', h)
                else setup_vectors ev d h [0 ..< nr_vectors_of control]))"

definition SetupGfxPlane :: "env \<Rightarrow> VfioPci \<Rightarrow> host \<Rightarrow> (VfioPci \<times> host) result" where
  "SetupGfxPlane ev d h =
     (let (ret, h1) = sys_ioctl ev h (device_fd d)
            (VFIO_DEVICE_QUERY_GFX_PLANE (VFIO_GFX_PLANE_TYPE_PROBE OR VFIO_GFX_PLANE_TYPE_REGION))
      in Inr (d, h1))"

fun update_vectors :: "env \<Rightarrow> VfioPci \<Rightarrow> host \<Rightarrow> nat list \<Rightarrow> (VfioPci \<times> host) result" where
  "update_vectors ev d h [] = Inr (d, h)"
| "update_vectors ev d h (vector # rest) =
     (if length (interrupts d) \<le> vector then Inl (Undefined ''interrupts_[vector]'', h)
      else (let event_fd = (if msi_enabled (msi_config d) then interrupts d ! vector else - 1);
                (ret, h1) = sys_ioctl ev h (device_fd d)
                   (VFIO_DEVICE_SET_IRQS (VFIO_IRQ_SET_DATA_EVENTFD OR VFIO_IRQ_SET_ACTION_TRIGGER)
                      VFIO_PCI_MSI_IRQ_INDEX vector 1 event_fd)
            in if ret < 0 then Inl (MV_PANIC ''failed to set MSI'', h1)
               else update_vectors ev d h1 rest))"

definition UpdateMsiRoutes :: "env \<Rightarrow> VfioPci \<Rightarrow> host \<Rightarrow> (VfioPci \<times> host) result" where
  "UpdateMsiRoutes ev d h =
     (case msi64_control d of
        None \<Rightarrow> Inl (Undefined ''msi_config_.msi64->control'', h)
      | Some control \<Rightarrow>
          (let d1 = d\<lparr>msi_config := (msi_config d)\<lparr>msi_enabled := (control AND PCI_MSI_FLAGS_ENABLE \<noteq> 0)\<rparr>\<rparr>
           in if nr_vectors_of control \<noteq> 1 then Inl (MV_ASSERT ''nr_vectors == 1'', h)
              else update_vectors ev d1 h [0 ..< nr_vectors_of control]))"

section \<open>Connect and Disconnect\<close>

text \<open>
  Modelled from the spec: the base PCI model (\<^verbatim>\<open>PciDevice::Connect\<close>,
  \<^verbatim>\<open>PciDevice::Disconnect\<close>) is an external collaborator that is not under src/; its
  calls are recorded in the trace. \<^verbatim>\<open>safe_close\<close> (utilities.h) closes the descriptor
  unless it is the sentinel -1, and resets it to -1.
\<close>

definition safe_close :: "host \<Rightarrow> int \<Rightarrow> int \<times> host" where
  "safe_close h fd = (if fd \<noteq> - 1 then (- 1, sys_close h fd) else (fd, h))"

definition Connect :: "env \<Rightarrow> (string \<Rightarrow> string option) \<Rightarrow> VfioPci \<Rightarrow> host \<Rightarrow> (VfioPci \<times> host) result option" where
  "Connect ev key_values d h =
     (let h0 = log_event h PciDevice_Connect
      in case key_values ''sysfs'' of
           None \<Rightarrow> Some (Inl (MV_PANIC ''Please specify sysfs for vfio-pci'', h0))
         | Some path \<Rightarrow>
             (case bind_r (SetupVfioGroup ev (d\<lparr>sysfs_path := path\<rparr>) h0) (\<lambda>(d1, h1).
                   bind_r (SetupVfioContainer ev d1 h1) (\<lambda>(d2, h2).
                   SetupVfioDevice ev d2 h2)) of
                Inl e \<Rightarrow> Some (Inl e)
              | Inr (d3, h3) \<Rightarrow>
                  (case SetupPciConfiguration ev d3 h3 of
                     None \<Rightarrow> None
                   | Some r \<Rightarrow>
                       Some (bind_r r (\<lambda>(d4, h4).
                             bind_r (SetupPciInterrupts ev d4 h4) (\<lambda>(d5, h5).
                             bind_r (SetupGfxPlane ev d5 h5) (\<lambda>(d6, h6).
                             SetupDmaMaps ev d6 h6)))))))"

fun close_interrupts :: "host \<Rightarrow> int list \<Rightarrow> int list \<times> host" where
  "close_interrupts h [] = ([], h)"
| "close_interrupts h (event_fd # rest) =
     (if 0 < event_fd
      then (case safe_close (StopPolling_io h event_fd) event_fd of
              (fd1, h1) \<Rightarrow> (case close_interrupts h1 rest of (rest1, h2) \<Rightarrow> (fd1 # rest1, h2)))
      else (case close_interrupts h rest of (rest1, h2) \<Rightarrow> (event_fd # rest1, h2)))"

definition Disconnect :: "VfioPci \<Rightarrow> host \<Rightarrow> VfioPci \<times> host" where
  "Disconnect d h =
     (let h1 = (case memory_listener d of None \<Rightarrow> h | Some l \<Rightarrow> UnregisterMemoryListener_mm h l);
          (fds, h2) = close_interrupts h1 (interrupts d);
          (dfd, h3) = safe_close h2 (device_fd d);
          (cfd, h4) = safe_close h3 (container_fd d);
          (gfd, h5) = safe_close h4 (group_fd d)
      in (d\<lparr>interrupts := fds, device_fd := dfd, container_fd := cfd, group_fd := gfd\<rparr>,
          log_event h5 PciDevice_Disconnect))"

section \<open>BAR mapper\<close>

definition PROT_READ :: nat where "PROT_READ = 1"
definition PROT_WRITE :: nat where "PROT_WRITE = 2"

text \<open>
  Modelled from the spec: \<^verbatim>\<open>AddIoResource\<close> and \<^verbatim>\<open>RemoveIoResource\<close> belong to the
  base device class, which is not under src/. The spec calls them publishing and
  unregistering a resource: the first appends the resource to the device's list (in
  insertion order), the second removes the resource of the given type and base address,
  and removes nothing when there is none.
\<close>

definition AddIoResource :: "VfioPci \<Rightarrow> IoResourceType \<Rightarrow> u64 \<Rightarrow> u64 \<Rightarrow> u64 option \<Rightarrow> string \<Rightarrow> VfioPci" where
  "AddIoResource d ty base len host_memory name =
     d\<lparr>io_resources := io_resources d @
         [\<lparr>ir_type = ty, ir_base = base, ir_length = len, ir_host_memory = host_memory, ir_name = name\<rparr>]\<rparr>"

fun remove_first :: "('a \<Rightarrow> bool) \<Rightarrow> 'a list \<Rightarrow> 'a list" where
  "remove_first P [] = []"
| "remove_first P (x # xs) = (if P x then xs else x # remove_first P xs)"

definition RemoveIoResource :: "VfioPci \<Rightarrow> IoResourceType \<Rightarrow> u64 \<Rightarrow> VfioPci" where
  "RemoveIoResource d ty base =
     d\<lparr>io_resources := remove_first (\<lambda>r. ir_type r = ty \<and> ir_base r = base) (io_resources d)\<rparr>"

definition protect_of :: "u32 \<Rightarrow> nat" where
  "protect_of flags =
     (if flags AND VFIO_REGION_INFO_FLAG_READ \<noteq> 0 then PROT_READ else 0) OR
     (if flags AND VFIO_REGION_INFO_FLAG_WRITE \<noteq> 0 then PROT_WRITE else 0)"

definition set_mmap_areas :: "VfioPci \<Rightarrow> nat \<Rightarrow> mmap_area list \<Rightarrow> VfioPci" where
  "set_mmap_areas d index areas = d\<lparr>regions := (regions d)[index := (regions d ! index)\<lparr>mmap_areas := areas\<rparr>]\<rparr>"

text \<open>
  The loop over \<^verbatim>\<open>region.mmap_areas\<close> of \<^verbatim>\<open>MapBarRegion\<close>: \<open>mapped\<close> are the areas
  already mapped (with their \<^verbatim>\<open>mmap\<close> pointer stored), the list argument the areas
  still to map.
\<close>

fun map_areas :: "env \<Rightarrow> VfioPci \<Rightarrow> host \<Rightarrow> nat \<Rightarrow> nat \<Rightarrow> mmap_area list \<Rightarrow> mmap_area list \<Rightarrow> (VfioPci \<times> host) result" where
  "map_areas ev d h index protect mapped [] = Inr (set_mmap_areas d index mapped, h)"
| "map_areas ev d h index protect mapped (area # rest) =
     (let (addr, h1) = sys_mmap ev h (area_size area) protect (device_fd d)
                         (region_offset (regions d ! index) + area_offset area)
      in if addr = MAP_FAILED then Inl (MV_PANIC ''failed to map region'', h1)
         else map_areas ev
                (AddIoResource d kIoResourceTypeRam (bar_address (pci_bars d ! index) + area_offset area)
                   (area_size area) (Some addr) ''vfio-bar-ram'')
                h1 index protect (mapped @ [area\<lparr>area_mmap := addr\<rparr>]) rest)"

definition MapBarRegion :: "env \<Rightarrow> VfioPci \<Rightarrow> host \<Rightarrow> nat \<Rightarrow> (bool \<times> VfioPci \<times> host) result" where
  "MapBarRegion ev d h index =
     (if length (pci_bars d) \<le> index then Inl (Undefined ''pci_bars_[index]'', h)
      else
        (let bar = pci_bars d ! index;
             region = regions d ! index;
             protect = protect_of (region_flags region)
         in if mmap_areas region = []
            then (let (addr, h1) = sys_mmap ev h (region_size region) protect (device_fd d) (region_offset region);
                      d1 = d\<lparr>pci_bars := (pci_bars d)[index := bar\<lparr>bar_host_memory := addr\<rparr>]\<rparr>
                  in Inr (True, AddIoResource d1 kIoResourceTypeRam (bar_address bar) (bar_size bar)
                                  (Some addr) ''vfio-bar-ram'', h1))
            else bind_r (map_areas ev
                           (AddIoResource d kIoResourceTypeMmio (bar_address bar) (bar_size bar) None ''vfio-bar-mmio'')
                           h index protect [] (mmap_areas region))
                   (\<lambda>(d1, h1). Inr (True, d1, h1))))"

fun unmap_areas :: "VfioPci \<Rightarrow> host \<Rightarrow> nat \<Rightarrow> mmap_area list \<Rightarrow> VfioPci \<times> host" where
  "unmap_areas d h index [] = (d, h)"
| "unmap_areas d h index (area # rest) =
     unmap_areas
       (RemoveIoResource d kIoResourceTypeRam (region_offset (regions d ! index) + area_offset area))
       (sys_munmap h (area_mmap area) (area_size area)) index rest"

definition UnmapBarRegion :: "VfioPci \<Rightarrow> host \<Rightarrow> nat \<Rightarrow> (bool \<times> VfioPci \<times> host) result" where
  "UnmapBarRegion d h index =
     (if length (pci_bars d) \<le> index then Inl (Undefined ''pci_bars_[index]'', h)
      else
        (let bar = pci_bars d ! index;
             region = regions d ! index
         in if mmap_areas region = []
            then Inr (True, RemoveIoResource d kIoResourceTypeRam (bar_address bar),
                      sys_munmap h (bar_host_memory bar) (region_size region))
            else (let (d1, h1) = unmap_areas d h index (mmap_areas region)
                  in Inr (True, RemoveIoResource d1 kIoResourceTypeMmio (bar_address bar), h1))))"

text \<open>
  The base PCI model's \<^verbatim>\<open>ActivatePciBar\<close>, \<^verbatim>\<open>DeactivatePciBar\<close>,
  \<^verbatim>\<open>WritePciConfigSpace\<close> and \<^verbatim>\<open>ReadPciConfigSpace\<close> are not under src/: each is a
  parameter \<open>base\<close> of the function that calls it.
\<close>

definition ActivatePciBar ::
  "(VfioPci \<Rightarrow> host \<Rightarrow> nat \<Rightarrow> (bool \<times> VfioPci \<times> host) result) \<Rightarrow> env \<Rightarrow> VfioPci \<Rightarrow> host \<Rightarrow> nat
     \<Rightarrow> (bool \<times> VfioPci \<times> host) result" where
  "ActivatePciBar base ev d h index =
     (if length (regions d) \<le> index then Inl (Undefined ''regions_[index]'', h)
      else if region_flags (regions d ! index) AND VFIO_REGION_INFO_FLAG_MMAP \<noteq> 0
      then MapBarRegion ev d h index
      else base d h index)"

definition DeactivatePciBar ::
  "(VfioPci \<Rightarrow> host \<Rightarrow> nat \<Rightarrow> (bool \<times> VfioPci \<times> host) result) \<Rightarrow> VfioPci \<Rightarrow> host \<Rightarrow> nat
     \<Rightarrow> (bool \<times> VfioPci \<times> host) result" where
  "DeactivatePciBar base d h index =
     (if length (regions d) \<le> index then Inl (Undefined ''regions_[index]'', h)
      else if region_flags (regions d ! index) AND VFIO_REGION_INFO_FLAG_MMAP \<noteq> 0
      then UnmapBarRegion d h index
      else base d h index)"

section \<open>Guest config-space accesses\<close>

text \<open>
  Modelled from the spec: \<^verbatim>\<open>ranges_overlap\<close> (utilities.h) is not under src/; two
  ranges overlap when they share a byte.
\<close>

definition ranges_overlap :: "nat \<Rightarrow> nat \<Rightarrow> nat \<Rightarrow> nat \<Rightarrow> bool" where
  "ranges_overlap first1 len1 first2 len2 = (first1 < first2 + len2 \<and> first2 < first1 + len1)"

text \<open>
  \<open>offset\<close> is the \<^verbatim>\<open>uint64_t\<close> and \<open>len\<close> the \<^verbatim>\<open>uint32_t\<close> of the source; their
  sum in the assertion is the 64-bit sum. \<open>data\<close> is the buffer, of which \<open>len\<close>
  bytes are written.
\<close>

definition WritePciConfigSpace ::
  "(VfioPci \<Rightarrow> host \<Rightarrow> u64 \<Rightarrow> u8 list \<Rightarrow> u32 \<Rightarrow> (VfioPci \<times> host) result) \<Rightarrow> env \<Rightarrow> VfioPci \<Rightarrow> host
     \<Rightarrow> u64 \<Rightarrow> u8 list \<Rightarrow> u32 \<Rightarrow> (VfioPci \<times> host) result" where
  "WritePciConfigSpace base ev d h offset data len =
     (if \<not> len \<le> 4 then Inl (MV_ASSERT ''length <= 4'', h)
      else if \<not> offset + ucast len \<le> of_nat PCI_DEVICE_CONFIG_SIZE
      then Inl (MV_ASSERT ''offset + length <= PCI_DEVICE_CONFIG_SIZE'', h)
      else if length (regions d) \<le> VFIO_PCI_CONFIG_REGION_INDEX
      then Inl (Undefined ''regions_[VFIO_PCI_CONFIG_REGION_INDEX]'', h)
      else
        (let (ret, h1) = sys_pwrite ev h (device_fd d) (take (unat len) data)
                           (region_offset (regions d ! VFIO_PCI_CONFIG_REGION_INDEX) + offset)
         in if ret \<noteq> int (unat len) then Inl (MV_ASSERT ''ret == (ssize_t)length'', h1)
            else bind_r (base d h1 offset data len) (\<lambda>(d2, h2).
                   if ranges_overlap (unat offset) (unat len) (msi_offset (msi_config d2) + PCI_MSI_FLAGS) 1
                   then UpdateMsiRoutes ev d2 h2
                   else Inr (d2, h2))))"

definition ReadPciConfigSpace ::
  "(VfioPci \<Rightarrow> host \<Rightarrow> u64 \<Rightarrow> u32 \<Rightarrow> (u8 list \<times> VfioPci \<times> host) result) \<Rightarrow> env \<Rightarrow> VfioPci \<Rightarrow> host
     \<Rightarrow> u64 \<Rightarrow> u32 \<Rightarrow> (u8 list \<times> VfioPci \<times> host) result" where
  "ReadPciConfigSpace base ev d h offset len =
     (if \<not> offset + ucast len \<le> of_nat PCI_DEVICE_CONFIG_SIZE
      then Inl (MV_ASSERT ''offset + length <= PCI_DEVICE_CONFIG_SIZE'', h)
      else if length (regions d) \<le> VFIO_PCI_CONFIG_REGION_INDEX
      then Inl (Undefined ''regions_[VFIO_PCI_CONFIG_REGION_INDEX]'', h)
      else
        (let ((ret, bytes), h1) = sys_pread ev h (device_fd d) (unat len)
                                    (region_offset (regions d ! VFIO_PCI_CONFIG_REGION_INDEX) + offset)
         in if bytes \<noteq> [] \<and> length (pci_header d) < unat offset + length bytes
            then Inl (Undefined ''pread into pci_header_.data + offset'', h1)
            else if ret \<noteq> int (unat len) then Inl (MV_ASSERT ''ret == (ssize_t)length'', h1)
            else base (d\<lparr>pci_header := take (unat offset) (pci_header d) @ bytes @
                                           drop (unat offset + length bytes) (pci_header d)\<rparr>)
                   h1 offset len))"

section \<open>The capability chain of a config space\<close>




section \<open>A concrete device\<close>

text \<open>
  The device of the spec's first scenario: a config region (index 7, 256 bytes), BAR0 of
  0x1000000 bytes with the MMAP flag and two sparse areas, one MSI vector. Its config
  space has the multi-function bit set, a 64-bit memory BAR0, interrupt pin 1 and a
  capability chain of a vendor capability at 0x40 and a 64-bit MSI capability at 0x50.
\<close>

definition example_config :: "u8 list" where
  "example_config = (replicate 256 0)[0x06 := 0x10, 0x0E := 0x80, 0x10 := 0x0C, 0x34 := 0x40,
      0x3D := 1, 0x40 := 0x09, 0x41 := 0x50, 0x50 := 0x05, 0x52 := 0x80]"

text \<open>
  The host's answers for that device: \<open>flags\<close> are the flags of
  \<^verbatim>\<open>VFIO_GROUP_GET_STATUS\<close>, \<open>config\<close> is the device's config space.
\<close>

definition device_env :: "u32 \<Rightarrow> u8 list \<Rightarrow> env" where
  "device_env flags config = \<lparr>
     readlink_result = (\<lambda>p. if p = ''/sys/bus/mdev/devices/a1/iommu_group''
                             then Some ''../../../kernel/iommu_groups/12'' else None),
     open_succeeds = (\<lambda>p. True),
     ioctl_result = (\<lambda>fd req. case req of VFIO_CHECK_EXTENSION n \<Rightarrow> 1 | _ \<Rightarrow> 0),
     group_status_flags = flags,
     iommu_info_reply = (\<lambda>n. \<lparr>iommu_argsz = 24, iommu_flags = 0, iommu_cap_offset = 0, iommu_caps = []\<rparr>),
     device_info_reply = \<lparr>info_flags = 3, num_regions = 9, num_irqs = 5\<rparr>,
     region_info_reply = (\<lambda>i n.
        if i = 0 then \<lparr>ri_argsz = 64, ri_flags = 15, ri_cap_offset = 32, ri_size = 0x1000000, ri_offset = 0,
                       ri_caps = [VFIO_REGION_INFO_CAP_SPARSE_MMAP [(0, 0x100000), (0x800000, 0x200000)]]\<rparr>
        else if i = 7 then \<lparr>ri_argsz = 32, ri_flags = 3, ri_cap_offset = 0, ri_size = 256,
                       ri_offset = 0x70000000000, ri_caps = []\<rparr>
        else \<lparr>ri_argsz = 32, ri_flags = 0, ri_cap_offset = 0, ri_size = 0, ri_offset = 0, ri_caps = []\<rparr>),
     irq_info_reply = (\<lambda>i. \<lparr>irq_flags = 1, irq_count = 1\<rparr>),
     pread_result = (\<lambda>fd n off. Some (take n (drop (unat (off - 0x70000000000)) config))),
     pwrite_result = (\<lambda>fd bs off. int (length bs)),
     mmap_result = (\<lambda>len prot fd off. 0x7f0000000000 + off),
     eventfd_succeeds = True,
     flat_view = [\<lparr>slot_begin = 0, slot_end = 0x80000000, slot_hva = 0x7e0000000000,
                    slot_region_type = kMemoryTypeRam\<rparr>,
                  \<lparr>slot_begin = 0xE0000000, slot_end = 0xE1000000, slot_hva = 0,
                    slot_region_type = kMemoryTypeOther 2\<rparr>]
   \<rparr>"

definition example_env :: env where
  "example_env = device_env VFIO_GROUP_FLAGS_VIABLE example_config"

text \<open>
  Two variants of the config space: BAR0 an I/O-space BAR (value 0x05, port base 4),
  and an MSI-X capability at 0x60 chained after the MSI capability.
\<close>

definition io_bar_config :: "u8 list" where
  "io_bar_config = example_config[0x10 := 0x05]"


definition example_device :: VfioPci where
  "example_device = \<lparr>sysfs_path = [], group_id = 0, group_fd = - 1, container_fd = - 1, device_fd = - 1,
     device_name = [], device_info = \<lparr>info_flags = 0, num_regions = 0, num_irqs = 0\<rparr>,
     regions = replicate 9 empty_region, interrupts = [- 1, - 1], memory_listener = None,
     pci_header = replicate 256 0,
     pci_bars = replicate 6 \<lparr>bar_type = kIoResourceTypeMmio, bar_size = 0, bar_address = 0, bar_host_memory = 0\<rparr>,
     msi_config = \<lparr>msi_is_64bit = False, msi_offset = 0, msi_is_msix = False, msi_length = 0,
                    msi_enabled = False, msi64 = None\<rparr>,
     io_resources = []\<rparr>"

definition example_host :: host where
  "example_host = \<lparr>open_fds = [0, 1, 2], polling = [], listeners = [], trace = []\<rparr>"

definition example_key_values :: "string \<Rightarrow> string option" where
  "example_key_values = (\<lambda>k. if k = ''sysfs'' then Some ''/sys/bus/mdev/devices/a1'' else None)"

text \<open>The device and the host after \<open>Connect\<close> (lemma \<open>Connect_example\<close> below).\<close>

definition attached_device :: VfioPci where
  "attached_device = \<lparr>sysfs_path = ''/sys/bus/mdev/devices/a1'', group_id = 12, group_fd = 3,
     container_fd = 4, device_fd = 5, device_name = ''a1'',
     device_info = \<lparr>info_flags = 3, num_regions = 9, num_irqs = 5\<rparr>,
     regions = (replicate 9 empty_region)
       [0 := \<lparr>region_index = 0, region_flags = 15, region_offset = 0, region_size = 0x1000000,
               region_type = 0, region_subtype = 0,
               mmap_areas = [\<lparr>area_offset = 0, area_size = 0x100000, area_mmap = 0\<rparr>,
                             \<lparr>area_offset = 0x800000, area_size = 0x200000, area_mmap = 0\<rparr>]\<rparr>,
        7 := \<lparr>region_index = 7, region_flags = 3, region_offset = 0x70000000000, region_size = 256,
               region_type = 0, region_subtype = 0, mmap_areas = []\<rparr>],
     interrupts = [6, - 1], memory_listener = Some 1,
     pci_header = example_config[0x0A := 0x02, 0x0B := 0x03, 0x0E := 0, 0x10 := 0x08, 0x3D := 0],
     pci_bars = (replicate 6 \<lparr>bar_type = kIoResourceTypeMmio, bar_size = 0, bar_address = 0, bar_host_memory = 0\<rparr>)
       [0 := \<lparr>bar_type = kIoResourceTypeMmio, bar_size = 0x1000000, bar_address = 0, bar_host_memory = 0\<rparr>],
     msi_config = \<lparr>msi_is_64bit = True, msi_offset = 0x50, msi_is_msix = False, msi_length = 14,
                    msi_enabled = False, msi64 = Some 0x50\<rparr>,
     io_resources = []\<rparr>"

definition attached_host :: host where
  "attached_host = \<lparr>open_fds = [6, 5, 4, 3, 0, 1, 2], polling = [6], listeners = [1],
     trace = [PciDevice_Connect, Readlink ''/sys/bus/mdev/devices/a1/iommu_group'',
       Open ''/dev/vfio/12'' 3, Ioctl 3 VFIO_GROUP_GET_STATUS 0,
       Open ''/dev/vfio/vfio'' 4, Ioctl 4 VFIO_GET_API_VERSION 0,
       Ioctl 4 (VFIO_CHECK_EXTENSION 3) 1, Ioctl 3 (VFIO_GROUP_SET_CONTAINER 4) 0,
       Ioctl 4 (VFIO_SET_IOMMU 3) 0, Ioctl 4 (VFIO_IOMMU_GET_INFO 24) 0,
       Ioctl 3 (VFIO_GROUP_GET_DEVICE_FD ''a1'') 5, Ioctl 5 VFIO_DEVICE_GET_INFO 0,
       Ioctl 5 (VFIO_DEVICE_GET_REGION_INFO 0 32) 0, Ioctl 5 (VFIO_DEVICE_GET_REGION_INFO 0 64) 0,
       Ioctl 5 (VFIO_DEVICE_GET_REGION_INFO 1 32) 0, Ioctl 5 (VFIO_DEVICE_GET_REGION_INFO 2 32) 0,
       Ioctl 5 (VFIO_DEVICE_GET_REGION_INFO 3 32) 0, Ioctl 5 (VFIO_DEVICE_GET_REGION_INFO 4 32) 0,
       Ioctl 5 (VFIO_DEVICE_GET_REGION_INFO 5 32) 0, Ioctl 5 (VFIO_DEVICE_GET_REGION_INFO 6 32) 0,
       Ioctl 5 (VFIO_DEVICE_GET_REGION_INFO 7 32) 0, Ioctl 5 (VFIO_DEVICE_GET_REGION_INFO 8 32) 0,
       Ioctl 5 (VFIO_DEVICE_GET_IRQ_INFO 0) 0, Ioctl 5 (VFIO_DEVICE_GET_IRQ_INFO 1) 0,
       Ioctl 5 (VFIO_DEVICE_GET_IRQ_INFO 2) 0, Ioctl 5 (VFIO_DEVICE_GET_IRQ_INFO 3) 0,
       Ioctl 5 (VFIO_DEVICE_GET_IRQ_INFO 4) 0,
       Pread 5 256 0x70000000000 256,
       Pwrite 5 (example_config[0x0A := 0x02, 0x0B := 0x03, 0x0E := 0, 0x10 := 0x08, 0x3D := 0])
         0x70000000000 256,
       Eventfd 6, StartPolling 6, Ioctl 5 (VFIO_DEVICE_QUERY_GFX_PLANE 5) 0,
       Ioctl 4 (VFIO_IOMMU_MAP_DMA 3 0x7e0000000000 0 0x80000000) 0,
       RegisterMemoryListener 1]\<rparr>"

text \<open>The same environment with every ioctl failing.\<close>

definition failing_env :: env where
  "failing_env = example_env\<lparr>ioctl_result := (\<lambda>fd req. - 1)\<rparr>"

text \<open>
  Stand-ins for the base PCI model's config accessors: the write stores the bytes in the
  header, the read returns the bytes of the header.
\<close>

definition example_base_write :: "VfioPci \<Rightarrow> host \<Rightarrow> u64 \<Rightarrow> u8 list \<Rightarrow> u32 \<Rightarrow> (VfioPci \<times> host) result" where
  "example_base_write d h offset data len =
     Inr (d\<lparr>pci_header := take (unat offset) (pci_header d) @ take (unat len) data @
                              drop (unat offset + unat len) (pci_header d)\<rparr>, h)"

definition example_base_read :: "VfioPci \<Rightarrow> host \<Rightarrow> u64 \<Rightarrow> u32 \<Rightarrow> (u8 list \<times> VfioPci \<times> host) result" where
  "example_base_read d h offset len = Inr (take (unat len) (drop (unat offset) (pci_header d)), d, h)"

text \<open>
  The attached device after the guest has programmed BAR0 at 0xE0000000, and a stand-in
  for the base PCI model's BAR activation.
\<close>

definition programmed_device :: VfioPci where
  "programmed_device = attached_device\<lparr>pci_bars :=
      (pci_bars attached_device)[0 := (pci_bars attached_device ! 0)\<lparr>bar_address := 0xE0000000\<rparr>]\<rparr>"

definition example_base_bar :: "VfioPci \<Rightarrow> host \<Rightarrow> nat \<Rightarrow> (bool \<times> VfioPci \<times> host) result" where
  "example_base_bar d h index = Inr (True, d, h)"

section \<open>Properties\<close>

lemma bind_r_Inl [simp]: "bind_r (Inl e) f = Inl e"
  by (simp add: bind_r_def)

lemma bind_r_Inr [simp]: "bind_r (Inr x) f = f x"
  by (simp add: bind_r_def)

lemma bind_r_cong [cong]: "m = m' \<Longrightarrow> bind_r m f = bind_r m' f"
  by simp

lemma sys_ioctl_open_fds [simp]: "open_fds (snd (sys_ioctl ev h fd req)) = open_fds h"
  by (simp add: sys_ioctl_def log_event_def Let_def)

subsection \<open>The concrete device\<close>

lemma failing_env_fields:
  "ioctl_result failing_env = (\<lambda>fd req. - 1)"
  by (simp add: failing_env_def)

lemma example_env_ioctl:
  "ioctl_result example_env fd req = (case req of VFIO_CHECK_EXTENSION n \<Rightarrow> 1 | _ \<Rightarrow> 0)"
  by (simp add: example_env_def device_env_def)

lemma attached_device_fields:
  "group_fd attached_device = 3" "container_fd attached_device = 4" "device_fd attached_device = 5"
  "interrupts attached_device = [6, - 1]" "memory_listener attached_device = Some 1"
  "msi_config attached_device = \<lparr>msi_is_64bit = True, msi_offset = 0x50, msi_is_msix = False,
      msi_length = 14, msi_enabled = False, msi64 = Some 0x50\<rparr>"
  "io_resources attached_device = []"
  by (simp_all add: attached_device_def)

lemma attached_host_fields:
  "open_fds attached_host = [6, 5, 4, 3, 0, 1, 2]" "polling attached_host = [6]"
  "listeners attached_host = [1]"
  by (simp_all add: attached_host_def)

lemma msi64_control_attached: "msi64_control attached_device = Some 0x80"
  by (simp add: msi64_control_def attached_device_def example_config_def get_u16_def)

subsection \<open>DMA mirror: a failed map is fatal, a failed unmap is not\<close>

text \<open>
  Claim C3. \<^verbatim>\<open>MapDmaPages\<close> ends in \<^verbatim>\<open>MV_PANIC\<close> whenever the
  \<^verbatim>\<open>VFIO_IOMMU_MAP_DMA\<close> ioctl returns a negative value; \<^verbatim>\<open>UnmapDmaPages\<close> returns
  normally whatever \<^verbatim>\<open>VFIO_IOMMU_UNMAP_DMA\<close> returns. So for a RAM slot the memory
  listener never aborts on an unmap, and aborts on a map exactly when the ioctl fails.
\<close>

theorem MapDmaPages_fatal_UnmapDmaPages_swallowed:
  "(fst (sys_ioctl ev h (container_fd d)
          (VFIO_IOMMU_MAP_DMA (VFIO_DMA_MAP_FLAG_READ OR VFIO_DMA_MAP_FLAG_WRITE)
             (slot_hva slot) (slot_begin slot) (slot_end slot - slot_begin slot))) < 0
      \<longrightarrow> (\<exists>h'. MapDmaPages ev d h slot = Inl (MV_PANIC ''failed to map'', h')))
   \<and> (\<exists>h'. UnmapDmaPages ev d h slot = Inr h')
   \<and> (slot_region_type slot = kMemoryTypeRam \<longrightarrow>
         (\<exists>h'. dma_listener ev d h slot True = Inr h') \<and>
         (isl (dma_listener ev d h slot False) \<longleftrightarrow>
            fst (sys_ioctl ev h (container_fd d)
              (VFIO_IOMMU_MAP_DMA (VFIO_DMA_MAP_FLAG_READ OR VFIO_DMA_MAP_FLAG_WRITE)
                 (slot_hva slot) (slot_begin slot) (slot_end slot - slot_begin slot))) < 0))"
  by (auto simp: MapDmaPages_def UnmapDmaPages_def dma_listener_def Let_def split: prod.splits)

theorem MapDmaPages_fatal_UnmapDmaPages_swallowed_witness:
  "(\<exists>h'. MapDmaPages failing_env attached_device attached_host (hd (flat_view example_env))
           = Inl (MV_PANIC ''failed to map'', h'))
   \<and> (\<exists>h'. UnmapDmaPages failing_env attached_device attached_host (hd (flat_view example_env)) = Inr h')"
  using MapDmaPages_fatal_UnmapDmaPages_swallowed
          [of failing_env attached_host attached_device "hd (flat_view example_env)"]
  by (simp add: sys_ioctl_def Let_def failing_env_fields attached_device_fields attached_host_fields)

subsection \<open>MSI router: a failed submit is fatal in both directions\<close>

text \<open>
  Claim C4, as stated, fails: with the enable bit clear (the disabling direction, trigger
  -1) and \<^verbatim>\<open>VFIO_DEVICE_SET_IRQS\<close> failing, \<^verbatim>\<open>UpdateMsiRoutes\<close> ends in
  \<^verbatim>\<open>MV_PANIC\<close>; nothing is swallowed.
\<close>

theorem UpdateMsiRoutes_swallows_failed_disable_counterexample:
  "msi64_control attached_device = Some 0x80
   \<and> (0x80 :: u16) AND PCI_MSI_FLAGS_ENABLE = 0
   \<and> UpdateMsiRoutes failing_env attached_device attached_host =
       Inl (MV_PANIC ''failed to set MSI'',
            log_event attached_host (Ioctl 5 (VFIO_DEVICE_SET_IRQS 36 1 0 1 (- 1)) (- 1)))"
  by (simp add: msi64_control_attached UpdateMsiRoutes_def nr_vectors_of_def PCI_MSI_FLAGS_QSIZE_def
       PCI_MSI_FLAGS_ENABLE_def sys_ioctl_def Let_def failing_env_fields
       VFIO_IRQ_SET_DATA_EVENTFD_def VFIO_IRQ_SET_ACTION_TRIGGER_def VFIO_PCI_MSI_IRQ_INDEX_def
       attached_device_fields attached_host_fields)

text \<open>
  Claim C4, amended. With one vector (the only case the code accepts),
  \<^verbatim>\<open>UpdateMsiRoutes\<close> submits one \<^verbatim>\<open>VFIO_DEVICE_SET_IRQS\<close> whose trigger is the
  eventfd when the enable bit is set and -1 when it is clear; in both directions a
  negative result ends in \<^verbatim>\<open>MV_PANIC\<close>, and any other result returns normally with
  \<open>msi_enabled\<close> set to the enable bit.
\<close>

theorem UpdateMsiRoutes_failed_submit_is_fatal:
  assumes "msi64_control d = Some control"
    and "nr_vectors_of control = 1"
    and "interrupts d \<noteq> []"
  shows "UpdateMsiRoutes ev d h =
     (let trigger = (if control AND PCI_MSI_FLAGS_ENABLE \<noteq> 0 then interrupts d ! 0 else - 1);
          submit = sys_ioctl ev h (device_fd d)
                     (VFIO_DEVICE_SET_IRQS (VFIO_IRQ_SET_DATA_EVENTFD OR VFIO_IRQ_SET_ACTION_TRIGGER)
                        VFIO_PCI_MSI_IRQ_INDEX 0 1 trigger)
      in if fst submit < 0 then Inl (MV_PANIC ''failed to set MSI'', snd submit)
         else Inr (d\<lparr>msi_config := (msi_config d)\<lparr>msi_enabled := (control AND PCI_MSI_FLAGS_ENABLE \<noteq> 0)\<rparr>\<rparr>,
                   snd submit))"
  using assms
  by (cases "interrupts d") (auto simp: UpdateMsiRoutes_def Let_def split: prod.splits)

theorem UpdateMsiRoutes_failed_submit_is_fatal_witness:
  "UpdateMsiRoutes failing_env attached_device attached_host =
       Inl (MV_PANIC ''failed to set MSI'',
            log_event attached_host (Ioctl 5 (VFIO_DEVICE_SET_IRQS 36 1 0 1 (- 1)) (- 1)))
   \<and> UpdateMsiRoutes example_env attached_device attached_host =
       Inr (attached_device\<lparr>msi_config := (msi_config attached_device)\<lparr>msi_enabled := False\<rparr>\<rparr>,
            log_event attached_host (Ioctl 5 (VFIO_DEVICE_SET_IRQS 36 1 0 1 (- 1)) 0))"
  using UpdateMsiRoutes_failed_submit_is_fatal [of attached_device "0x80" failing_env attached_host]
        UpdateMsiRoutes_failed_submit_is_fatal [of attached_device "0x80" example_env attached_host]
  by (simp add: msi64_control_attached nr_vectors_of_def PCI_MSI_FLAGS_QSIZE_def
       PCI_MSI_FLAGS_ENABLE_def sys_ioctl_def Let_def failing_env_fields example_env_ioctl
       VFIO_IRQ_SET_DATA_EVENTFD_def VFIO_IRQ_SET_ACTION_TRIGGER_def VFIO_PCI_MSI_IRQ_INDEX_def
       attached_device_fields attached_host_fields)

lemma attached_regions:
  "length (regions attached_device) = 9"
  "regions attached_device ! 7 = \<lparr>region_index = 7, region_flags = 3, region_offset = 0x70000000000,
       region_size = 256, region_type = 0, region_subtype = 0, mmap_areas = []\<rparr>"
  by (simp_all add: attached_device_def)

lemma example_env_pwrite: "pwrite_result example_env fd bs off = int (length bs)"
  by (simp add: example_env_def device_env_def)

subsection \<open>Guest config-space accesses: the asserted bounds\<close>

lemma no_wrap_sum:
  fixes offset :: u64 and len :: u32
  assumes "unat offset + unat len < 2 ^ 64"
  shows "(offset + ucast len \<le> 256) = (unat offset + unat len \<le> 256)"
proof -
  have "unat len < 2 ^ 32"
    using unsigned_less [of len, where 'a = nat] by simp
  then have "unat len < 2 ^ 64"
    by simp
  then have u: "unat (ucast len :: u64) = unat len"
    by (simp add: unsigned_ucast_eq take_bit_nat_eq_self)
  have "unat (offset + ucast len) = unat offset + unat len"
    using assms u by (simp add: unat_add_lem [THEN iffD1])
  then show ?thesis
    by (simp add: word_le_nat_alt)
qed

text \<open>
  Claim C10. \<^verbatim>\<open>WritePciConfigSpace\<close> asserts \<^verbatim>\<open>length <= 4\<close> and
  \<^verbatim>\<open>offset + length <= 256\<close>, \<^verbatim>\<open>ReadPciConfigSpace\<close> asserts
  \<^verbatim>\<open>offset + length <= 256\<close>: an access that violates a bound ends in \<^verbatim>\<open>MV_ASSERT\<close>
  before anything is forwarded (the host is unchanged), so it is neither truncated nor
  ignored. The sum is the 64-bit sum of the source; it is the sum of the two numbers
  whenever that sum is below \<open>2 ^ 64\<close>, as it is for every offset a guest can address.
\<close>

theorem config_access_bounds_are_asserted:
  "(\<not> (len \<le> 4 \<and> offset + ucast len \<le> of_nat PCI_DEVICE_CONFIG_SIZE) \<longrightarrow>
      (\<exists>msg. WritePciConfigSpace basew ev d h offset data len = Inl (MV_ASSERT msg, h)))
   \<and> (\<not> offset + ucast len \<le> of_nat PCI_DEVICE_CONFIG_SIZE \<longrightarrow>
      (\<exists>msg. ReadPciConfigSpace baser ev d h offset len = Inl (MV_ASSERT msg, h)))
   \<and> (unat offset + unat len < 2 ^ 64 \<longrightarrow>
      (offset + ucast len \<le> of_nat PCI_DEVICE_CONFIG_SIZE) = (unat offset + unat len \<le> PCI_DEVICE_CONFIG_SIZE))"
  using no_wrap_sum [of offset len]
  by (auto simp: WritePciConfigSpace_def ReadPciConfigSpace_def PCI_DEVICE_CONFIG_SIZE_def)

theorem config_access_bounds_are_asserted_witness:
  "(\<exists>msg. WritePciConfigSpace example_base_write example_env attached_device attached_host
             0xFE [1, 2, 3, 4] 4 = Inl (MV_ASSERT msg, attached_host))
   \<and> (\<exists>msg. WritePciConfigSpace example_base_write example_env attached_device attached_host
             0x10 [1, 2, 3, 4, 5, 6, 7, 8] 8 = Inl (MV_ASSERT msg, attached_host))
   \<and> (\<exists>msg. ReadPciConfigSpace example_base_read example_env attached_device attached_host
             0x100 1 = Inl (MV_ASSERT msg, attached_host))"
  using config_access_bounds_are_asserted
          [of 4 "0xFE" example_base_write example_env attached_device attached_host "[1, 2, 3, 4]"
              example_base_read]
        config_access_bounds_are_asserted
          [of 8 "0x10" example_base_write example_env attached_device attached_host
              "[1, 2, 3, 4, 5, 6, 7, 8]" example_base_read]
        config_access_bounds_are_asserted
          [of 1 "0x100" example_base_write example_env attached_device attached_host "[]"
              example_base_read]
  by (simp add: PCI_DEVICE_CONFIG_SIZE_def)

text \<open>
  Where the 64-bit sum wraps, the assertions pass. At offset
  \<open>2 ^ 64 - 1\<close> and length 1 the sum is 0 and the write is forwarded.
\<close>

lemma WritePciConfigSpace_offset_wraps:
  "WritePciConfigSpace (\<lambda>d h offset data len. Inr (d, h)) example_env attached_device attached_host
     0xFFFFFFFFFFFFFFFF [0xFF] 1
   = Inr (attached_device,
          log_event attached_host (Pwrite 5 [0xFF] (0x70000000000 + 0xFFFFFFFFFFFFFFFF) 1))"
  by (simp add: WritePciConfigSpace_def PCI_DEVICE_CONFIG_SIZE_def VFIO_PCI_CONFIG_REGION_INDEX_def
        attached_regions sys_pwrite_def Let_def attached_device_fields attached_host_fields
        example_env_pwrite ranges_overlap_def PCI_MSI_FLAGS_def)

subsection \<open>Guest config writes: forward, base model, MSI routes\<close>

text \<open>
  Claim C7. A config write within the asserted bounds is first forwarded to the device
  descriptor: one \<^verbatim>\<open>pwrite\<close> of the \<open>len\<close> bytes at the config region's host offset
  plus the write offset, whatever register it addresses. The base PCI model then runs
  on the host state that holds that write, and \<^verbatim>\<open>UpdateMsiRoutes\<close> runs after it if
  and only if the byte at \<open>msi_offset + PCI_MSI_FLAGS\<close> (the low byte of the MSI
  control register, which holds the enable bit) lies in \<open>[offset, offset + len)\<close>.
  The one way out of this sequence is the assertion that the device took all \<open>len\<close>
  bytes, which aborts.
\<close>

theorem WritePciConfigSpace_forwards_then_base_then_msi:
  assumes "len \<le> 4"
    and "offset + ucast len \<le> of_nat PCI_DEVICE_CONFIG_SIZE"
    and "VFIO_PCI_CONFIG_REGION_INDEX < length (regions d)"
  shows "WritePciConfigSpace base ev d h offset data len =
     (let forwarded = sys_pwrite ev h (device_fd d) (take (unat len) data)
                        (region_offset (regions d ! VFIO_PCI_CONFIG_REGION_INDEX) + offset)
      in if fst forwarded \<noteq> int (unat len)
         then Inl (MV_ASSERT ''ret == (ssize_t)length'', snd forwarded)
         else (case base d (snd forwarded) offset data len of
                 Inl e \<Rightarrow> Inl e
               | Inr (d2, h2) \<Rightarrow>
                   if unat offset \<le> msi_offset (msi_config d2) + PCI_MSI_FLAGS
                      \<and> msi_offset (msi_config d2) + PCI_MSI_FLAGS < unat offset + unat len
                   then UpdateMsiRoutes ev d2 h2 else Inr (d2, h2)))
     \<and> snd (sys_pwrite ev h (device_fd d) (take (unat len) data)
                        (region_offset (regions d ! VFIO_PCI_CONFIG_REGION_INDEX) + offset)) =
       log_event h (Pwrite (device_fd d) (take (unat len) data)
          (region_offset (regions d ! VFIO_PCI_CONFIG_REGION_INDEX) + offset)
          (fst (sys_pwrite ev h (device_fd d) (take (unat len) data)
                        (region_offset (regions d ! VFIO_PCI_CONFIG_REGION_INDEX) + offset))))"
  using assms
  by (auto simp: WritePciConfigSpace_def Let_def ranges_overlap_def bind_r_def sys_pwrite_def
           split: prod.splits sum.splits)

theorem WritePciConfigSpace_forwards_then_base_then_msi_witness:
  "\<exists>d' h'. WritePciConfigSpace example_base_write example_env attached_device attached_host
              0x52 [0x81, 0] 2 = Inr (d', h')
     \<and> trace h' = trace attached_host @
          [Pwrite 5 [0x81, 0] 0x70000000052 2, Ioctl 5 (VFIO_DEVICE_SET_IRQS 36 1 0 1 6) 0]
     \<and> msi_enabled (msi_config d')"
  using WritePciConfigSpace_forwards_then_base_then_msi
          [of 2 "0x52" attached_device example_base_write example_env attached_host "[0x81, 0]"]
  apply (simp add: PCI_DEVICE_CONFIG_SIZE_def VFIO_PCI_CONFIG_REGION_INDEX_def attached_regions
        sys_pwrite_def Let_def attached_device_fields attached_host_fields example_env_pwrite
        PCI_MSI_FLAGS_def example_base_write_def)
  apply (simp add: UpdateMsiRoutes_def msi64_control_def attached_device_fields get_u16_def
        attached_device_def example_config_def nth_append nr_vectors_of_def PCI_MSI_FLAGS_QSIZE_def
        PCI_MSI_FLAGS_ENABLE_def sys_ioctl_def Let_def example_env_ioctl log_event_def
        VFIO_IRQ_SET_DATA_EVENTFD_def VFIO_IRQ_SET_ACTION_TRIGGER_def VFIO_PCI_MSI_IRQ_INDEX_def
        attached_host_fields)
  done

subsection \<open>BAR mapper\<close>


lemma sys_mmap_snd:
  "snd (sys_mmap ev h len prot fd off) =
     log_event h (Mmap len prot fd off (fst (sys_mmap ev h len prot fd off)))"
  by (simp add: sys_mmap_def Let_def)

lemma log_event_fields [simp]:
  "open_fds (log_event h e) = open_fds h" "polling (log_event h e) = polling h"
  "listeners (log_event h e) = listeners h" "trace (log_event h e) = trace h @ [e]"
  by (simp_all add: log_event_def)

lemma AddIoResource_fields [simp]:
  "regions (AddIoResource d ty base len hm name) = regions d"
  "pci_bars (AddIoResource d ty base len hm name) = pci_bars d"
  "device_fd (AddIoResource d ty base len hm name) = device_fd d"
  "io_resources (AddIoResource d ty base len hm name) = io_resources d @
      [\<lparr>ir_type = ty, ir_base = base, ir_length = len, ir_host_memory = hm, ir_name = name\<rparr>]"
  by (simp_all add: AddIoResource_def)

lemma sys_mmap_open_fds [simp]: "open_fds (snd (sys_mmap ev h len prot fd off)) = open_fds h"
  by (simp add: sys_mmap_snd)






lemma example_env_mmap: "mmap_result example_env len prot fd off = 0x7f0000000000 + off"
  by (simp add: example_env_def device_env_def)

lemma programmed_device_fields:
  "device_fd programmed_device = 5"
  "io_resources programmed_device = []"
  "length (regions programmed_device) = 9"
  "regions programmed_device ! 0 = \<lparr>region_index = 0, region_flags = 15, region_offset = 0,
      region_size = 0x1000000, region_type = 0, region_subtype = 0,
      mmap_areas = [\<lparr>area_offset = 0, area_size = 0x100000, area_mmap = 0\<rparr>,
                    \<lparr>area_offset = 0x800000, area_size = 0x200000, area_mmap = 0\<rparr>]\<rparr>"
  "regions programmed_device \<noteq> []"
  "length (pci_bars programmed_device) = 6"
  "pci_bars programmed_device ! 0 = \<lparr>bar_type = kIoResourceTypeMmio, bar_size = 0x1000000,
      bar_address = 0xE0000000, bar_host_memory = 0\<rparr>"
  by (simp_all add: programmed_device_def attached_device_def)

text \<open>
  Claim C2 fails on the code for a sparse BAR. \<^verbatim>\<open>MapBarRegion\<close> publishes each
  area as RAM at \<open>bar.address + area.offset\<close>; \<^verbatim>\<open>UnmapBarRegion\<close> asks to remove
  the RAM resource at \<open>region.offset + area.offset\<close>, the offset in the device file.
  On the concrete device (BAR0 at 0xE0000000, region offset 0, areas at 0 and 0x800000)
  the two RAM resources are still registered after deactivation, and a second activation
  registers them again: five resources where a single activation leaves three.
\<close>

theorem sparse_bar_ram_survives_deactivation:
  "(case ActivatePciBar example_base_bar example_env programmed_device attached_host 0 of
      Inl e \<Rightarrow> False
    | Inr (r1, d1, h1) \<Rightarrow>
       (case DeactivatePciBar example_base_bar d1 h1 0 of
          Inl e \<Rightarrow> False
        | Inr (r2, d2, h2) \<Rightarrow>
           (case ActivatePciBar example_base_bar example_env d2 h2 0 of
              Inl e \<Rightarrow> False
            | Inr (r3, d3, h3) \<Rightarrow>
                map (\<lambda>r. (ir_type r, ir_base r, ir_length r)) (io_resources d1) =
                  [(kIoResourceTypeMmio, 0xE0000000, 0x1000000),
                   (kIoResourceTypeRam, 0xE0000000, 0x100000),
                   (kIoResourceTypeRam, 0xE0800000, 0x200000)]
              \<and> map (\<lambda>r. (ir_type r, ir_base r, ir_length r)) (io_resources d2) =
                  [(kIoResourceTypeRam, 0xE0000000, 0x100000),
                   (kIoResourceTypeRam, 0xE0800000, 0x200000)]
              \<and> map (\<lambda>r. (ir_type r, ir_base r, ir_length r)) (io_resources d3) =
                  [(kIoResourceTypeRam, 0xE0000000, 0x100000),
                   (kIoResourceTypeRam, 0xE0800000, 0x200000),
                   (kIoResourceTypeMmio, 0xE0000000, 0x1000000),
                   (kIoResourceTypeRam, 0xE0000000, 0x100000),
                   (kIoResourceTypeRam, 0xE0800000, 0x200000)])))"
  by (simp add: ActivatePciBar_def DeactivatePciBar_def MapBarRegion_def UnmapBarRegion_def
        programmed_device_fields VFIO_REGION_INFO_FLAG_MMAP_def Let_def sys_mmap_def
        attached_host_fields example_env_mmap MAP_FAILED_def AddIoResource_def RemoveIoResource_def
        set_mmap_areas_def sys_munmap_def protect_of_def)

subsection \<open>Descriptors and the attach steps\<close>

lemma bind_r_Inr_iff: "bind_r m f = Inr y \<longleftrightarrow> (\<exists>x. m = Inr x \<and> f x = Inr y)"
  by (cases m) simp_all

lemma isl_bind_r: "isl m \<Longrightarrow> isl (bind_r m f)"
  by (cases m) simp_all

lemma ne_set_nonempty: "x \<in> set xs \<Longrightarrow> xs \<noteq> []"
  by auto

lemma free_number_exists: "\<exists>n < Suc (length fds). int n \<notin> set fds"
proof (rule ccontr)
  assume "\<not> (\<exists>n < Suc (length fds). int n \<notin> set fds)"
  then have "int ` {0 ..< Suc (length fds)} \<subseteq> set fds"
    by auto
  then have "card (int ` {0 ..< Suc (length fds)}) \<le> card (set fds)"
    by (simp add: card_mono)
  moreover have "card (int ` {0 ..< Suc (length fds)}) = Suc (length fds)"
    by (simp add: card_image)
  moreover have "card (set fds) \<le> length fds"
    by (rule card_length)
  ultimately show False
    by simp
qed

lemma lowest_free_fresh: "lowest_free fds \<notin> set fds"
proof -
  let ?free = "filter (\<lambda>n. int n \<notin> set fds) [0 ..< Suc (length fds)]"
  obtain n where "n < Suc (length fds)" and "int n \<notin> set fds"
    using free_number_exists [of fds] by blast
  then have "n \<in> set ?free"
    by (simp del: upt_Suc)
  then have "?free \<noteq> []"
    by (rule ne_set_nonempty)
  then have "hd ?free \<in> set ?free"
    by (rule hd_in_set)
  then have "int (hd ?free) \<notin> set fds"
    by (simp del: upt_Suc)
  then show ?thesis
    unfolding lowest_free_def .
qed

lemma lowest_free_nonneg: "0 \<le> lowest_free fds"
  by (simp add: lowest_free_def)

lemma lowest_free_zero: "0 \<notin> set fds \<Longrightarrow> lowest_free fds = 0"
  by (simp add: lowest_free_def upt_rec [of 0] del: upt_Suc)

text \<open>A descriptor allocated while an earlier allocation is still open is positive.\<close>

lemma later_fd_positive:
  assumes "lowest_free fds \<in> set fds'" and "set fds \<subseteq> set fds'"
  shows "0 < lowest_free fds'"
proof -
  have "0 \<in> set fds'"
  proof (cases "0 \<in> set fds")
    case True
    then show ?thesis using assms(2) by auto
  next
    case False
    then show ?thesis using assms(1) by (simp add: lowest_free_zero)
  qed
  then have "lowest_free fds' \<noteq> 0"
    using lowest_free_fresh [of fds'] by auto
  then show ?thesis
    using lowest_free_nonneg [of fds'] by simp
qed

text \<open>What the attach steps leave when they succeed.\<close>

lemma assert_ioctl_Inr:
  "assert_ioctl ev h fd req nz ex msg = Inr h' \<Longrightarrow>
     open_fds h' = open_fds h \<and> polling h' = polling h \<and> listeners h' = listeners h"
  by (auto simp: assert_ioctl_def sys_ioctl_def Let_def split: if_splits)

lemma assert_ioctl_zero_open:
  "assert_ioctl ev h fd req False 0 msg = Inr h' \<Longrightarrow> fd \<in> set (open_fds h)"
  by (auto simp: assert_ioctl_def sys_ioctl_def Let_def split: if_splits)

lemma sys_open_cases:
  "sys_open ev h path = (fd, h') \<Longrightarrow>
     (fd = - 1 \<and> open_fds h' = open_fds h \<or>
      fd = lowest_free (open_fds h) \<and> open_fds h' = fd # open_fds h)
     \<and> polling h' = polling h \<and> listeners h' = listeners h"
  by (auto simp: sys_open_def new_fd_def Let_def split: if_splits)

lemma SetupVfioGroup_Inr:
  assumes "SetupVfioGroup ev d h = Inr (d', h')"
  shows "(\<exists>gid. d' = d\<lparr>group_id := gid, group_fd := lowest_free (open_fds h)\<rparr>)
     \<and> open_fds h' = lowest_free (open_fds h) # open_fds h
     \<and> polling h' = polling h \<and> listeners h' = listeners h"
  using assms lowest_free_nonneg [of "open_fds h"]
  by (auto simp: SetupVfioGroup_def Let_def sys_ioctl_def
           split: option.splits if_splits prod.splits dest!: sys_open_cases)

lemma SetupVfioContainer_Inr:
  assumes "SetupVfioContainer ev d h = Inr (d', h')"
  shows "d' = d\<lparr>container_fd := lowest_free (open_fds h)\<rparr>
     \<and> open_fds h' = lowest_free (open_fds h) # open_fds h
     \<and> polling h' = polling h \<and> listeners h' = listeners h"
  using assms lowest_free_nonneg [of "open_fds h"]
  by (auto simp: SetupVfioContainer_def Let_def bind_r_Inr_iff
           split: if_splits prod.splits dest!: sys_open_cases assert_ioctl_Inr)

subsection \<open>Bytes of the header\<close>

lemma u32_of_bytes:
  fixes v :: u32
  shows "ucast (ucast v :: u8) OR push_bit 8 (ucast (ucast (drop_bit 8 v) :: u8))
       OR push_bit 16 (ucast (ucast (drop_bit 16 v) :: u8))
       OR push_bit 24 (ucast (ucast (drop_bit 24 v) :: u8)) = v"
proof (rule bit_word_eqI)
  fix n :: nat
  assume "n < LENGTH(32)"
  then consider "n < 8" | "8 \<le> n" "n < 16" | "16 \<le> n" "n < 24" | "24 \<le> n" "n < 32"
    by fastforce
  then show "bit (ucast (ucast v :: u8) OR push_bit 8 (ucast (ucast (drop_bit 8 v) :: u8))
       OR push_bit 16 (ucast (ucast (drop_bit 16 v) :: u8))
       OR push_bit 24 (ucast (ucast (drop_bit 24 v) :: u8)) :: u32) n = bit v n"
    by cases (auto simp: bit_simps)
qed

lemma get_set_u32:
  "k + 3 < length data \<Longrightarrow> get_u32 (set_u32 data k v) k = v"
  by (simp add: get_u32_def set_u32_def u32_of_bytes)

lemma set_u32_length [simp]: "length (set_u32 data k v) = length data"
  by (simp add: set_u32_def)

lemma set_u32_other:
  "j < k \<or> k + 3 < j \<Longrightarrow> set_u32 data k v ! j = data ! j"
  by (auto simp: set_u32_def)

lemma get_set_u32_other:
  "k' + 3 < k \<or> k + 3 < k' \<Longrightarrow> get_u32 (set_u32 data k v) k' = get_u32 data k'"
  by (auto simp: get_u32_def set_u32_other)

lemma bars_set_bars:
  "16 + 4 * i + 3 < length data \<Longrightarrow> bars (set_bars data i v) i = v"
  by (simp add: bars_def set_bars_def get_set_u32)

lemma bars_set_bars_other:
  "i \<noteq> j \<Longrightarrow> bars (set_bars data i v) j = bars data j"
  by (cases "i < j") (auto simp: bars_def set_bars_def get_set_u32_other)

lemma set_bars_length [simp]: "length (set_bars data i v) = length data"
  by (simp add: set_bars_def)

lemma set_bars_other:
  "i < 6 \<Longrightarrow> j < 16 \<or> 40 \<le> j \<Longrightarrow> set_bars data i v ! j = data ! j"
  by (auto simp: set_bars_def set_u32_other)

lemma clear_64bit_type:
  fixes bar :: u32
  shows "(bar AND NOT PCI_BASE_ADDRESS_MEM_TYPE_64) AND PCI_BASE_ADDRESS_MEM_TYPE_64 = 0"
    and "(bar AND NOT PCI_BASE_ADDRESS_MEM_TYPE_64) AND PCI_BASE_ADDRESS_SPACE_IO
           = bar AND PCI_BASE_ADDRESS_SPACE_IO"
proof -
  show "(bar AND NOT PCI_BASE_ADDRESS_MEM_TYPE_64) AND PCI_BASE_ADDRESS_MEM_TYPE_64 = 0"
    by (simp add: and.assoc)
  have "NOT PCI_BASE_ADDRESS_MEM_TYPE_64 AND PCI_BASE_ADDRESS_SPACE_IO = PCI_BASE_ADDRESS_SPACE_IO"
    by (simp add: PCI_BASE_ADDRESS_MEM_TYPE_64_def PCI_BASE_ADDRESS_SPACE_IO_def)
  then show "(bar AND NOT PCI_BASE_ADDRESS_MEM_TYPE_64) AND PCI_BASE_ADDRESS_SPACE_IO
           = bar AND PCI_BASE_ADDRESS_SPACE_IO"
    by (simp add: and.assoc)
qed

subsection \<open>The BAR loop\<close>

lemma setup_bars_step:
  assumes "setup_bars d (i # rest) = Inr d'" and "i < 6" and "40 \<le> length (pci_header d)"
  shows "\<exists>hdr1 bs1. setup_bars (d\<lparr>pci_header := hdr1, pci_bars := bs1\<rparr>) rest = Inr d'
     \<and> length hdr1 = length (pci_header d) \<and> length bs1 = length (pci_bars d)
     \<and> (\<forall>j. j < 16 \<or> 40 \<le> j \<longrightarrow> hdr1 ! j = pci_header d ! j)
     \<and> (\<forall>k. k \<noteq> i \<longrightarrow> bars hdr1 k = bars (pci_header d) k \<and> bs1 ! k = pci_bars d ! k)
     \<and> (region_size (regions d ! i) \<noteq> 0 \<longrightarrow>
          i < length bs1 \<and> bar_size (bs1 ! i) = region_size (regions d ! i)
          \<and> (bars hdr1 i AND PCI_BASE_ADDRESS_SPACE_IO = 0 \<longrightarrow>
               bars hdr1 i AND PCI_BASE_ADDRESS_MEM_TYPE_64 = 0))"
proof (cases "region_size (regions d ! i) = 0")
  case True
  with assms(1) have "setup_bars (d\<lparr>pci_header := pci_header d, pci_bars := pci_bars d\<rparr>) rest = Inr d'"
    by simp
  then show ?thesis using True by blast
next
  case populated: False
  show ?thesis
  proof (cases "bars (pci_header d) i AND PCI_BASE_ADDRESS_SPACE_IO \<noteq> 0")
    case True
    let ?bs = "(pci_bars d)[i := (pci_bars d ! i)\<lparr>bar_type := kIoResourceTypePio,
                    bar_size := region_size (regions d ! i)\<rparr>]"
    from assms(1) populated True
    have "i < length (pci_bars d)"
      and "setup_bars (d\<lparr>pci_header := pci_header d, pci_bars := ?bs\<rparr>) rest = Inr d'"
      by (auto simp: AddPciBar_def split: if_splits)
    then show ?thesis
      using True by (intro exI [of _ "pci_header d"] exI [of _ ?bs]) simp
  next
    case False
    let ?hdr = "if bars (pci_header d) i AND PCI_BASE_ADDRESS_MEM_TYPE_64 \<noteq> 0
                then set_bars (pci_header d) i (bars (pci_header d) i AND NOT PCI_BASE_ADDRESS_MEM_TYPE_64)
                else pci_header d"
    let ?bs = "(pci_bars d)[i := (pci_bars d ! i)\<lparr>bar_type := kIoResourceTypeMmio,
                    bar_size := region_size (regions d ! i)\<rparr>]"
    from assms(1) populated False
    have len: "i < length (pci_bars d)"
      and run: "setup_bars (d\<lparr>pci_header := ?hdr, pci_bars := ?bs\<rparr>) rest = Inr d'"
      by (auto simp: AddPciBar_def split: if_splits)
    have in_hdr: "16 + 4 * i + 3 < length (pci_header d)"
      using assms(2,3) by simp
    have "bars ?hdr i AND PCI_BASE_ADDRESS_MEM_TYPE_64 = 0"
      by (simp add: bars_set_bars [OF in_hdr] clear_64bit_type)
    moreover have "\<forall>j. j < 16 \<or> 40 \<le> j \<longrightarrow> ?hdr ! j = pci_header d ! j"
      using assms(2) by (auto simp: set_bars_other)
    moreover have "\<forall>k. k \<noteq> i \<longrightarrow> bars ?hdr k = bars (pci_header d) k \<and> ?bs ! k = pci_bars d ! k"
      by (auto simp: bars_set_bars_other)
    moreover have "length ?hdr = length (pci_header d)"
      by simp
    ultimately show ?thesis
      using run len by (intro exI [of _ ?hdr] exI [of _ ?bs]) simp
  qed
qed

lemma setup_bars_Inr:
  assumes "setup_bars d idxs = Inr d'" and "distinct idxs" and "\<forall>i \<in> set idxs. i < 6"
    and "40 \<le> length (pci_header d)"
  shows "\<exists>hdr bs. d' = d\<lparr>pci_header := hdr, pci_bars := bs\<rparr>
     \<and> length hdr = length (pci_header d) \<and> length bs = length (pci_bars d)
     \<and> (\<forall>j. j < 16 \<or> 40 \<le> j \<longrightarrow> hdr ! j = pci_header d ! j)
     \<and> (\<forall>k. k \<notin> set idxs \<longrightarrow> bars hdr k = bars (pci_header d) k \<and> bs ! k = pci_bars d ! k)
     \<and> (\<forall>i \<in> set idxs. region_size (regions d ! i) \<noteq> 0 \<longrightarrow>
          i < length bs \<and> bar_size (bs ! i) = region_size (regions d ! i)
          \<and> (bars hdr i AND PCI_BASE_ADDRESS_SPACE_IO = 0 \<longrightarrow>
               bars hdr i AND PCI_BASE_ADDRESS_MEM_TYPE_64 = 0))"
  using assms
proof (induction idxs arbitrary: d)
  case Nil
  then show ?case
    by (intro exI [of _ "pci_header d"] exI [of _ "pci_bars d"]) simp
next
  case (Cons i rest)
  from setup_bars_step [OF Cons.prems(1)] Cons.prems(3,4)
  obtain hdr1 bs1 where
    run: "setup_bars (d\<lparr>pci_header := hdr1, pci_bars := bs1\<rparr>) rest = Inr d'"
    and len1: "length hdr1 = length (pci_header d)" "length bs1 = length (pci_bars d)"
    and out1: "\<forall>j. j < 16 \<or> 40 \<le> j \<longrightarrow> hdr1 ! j = pci_header d ! j"
    and oth1: "\<forall>k. k \<noteq> i \<longrightarrow> bars hdr1 k = bars (pci_header d) k \<and> bs1 ! k = pci_bars d ! k"
    and at1: "region_size (regions d ! i) \<noteq> 0 \<longrightarrow>
          i < length bs1 \<and> bar_size (bs1 ! i) = region_size (regions d ! i)
          \<and> (bars hdr1 i AND PCI_BASE_ADDRESS_SPACE_IO = 0 \<longrightarrow>
               bars hdr1 i AND PCI_BASE_ADDRESS_MEM_TYPE_64 = 0)"
    by auto
  let ?d1 = "d\<lparr>pci_header := hdr1, pci_bars := bs1\<rparr>"
  from Cons.IH [OF run] Cons.prems(2,3,4) len1
  obtain hdr bs where
    eq: "d' = ?d1\<lparr>pci_header := hdr, pci_bars := bs\<rparr>"
    and len: "length hdr = length hdr1" "length bs = length bs1"
    and out: "\<forall>j. j < 16 \<or> 40 \<le> j \<longrightarrow> hdr ! j = hdr1 ! j"
    and oth: "\<forall>k. k \<notin> set rest \<longrightarrow> bars hdr k = bars hdr1 k \<and> bs ! k = bs1 ! k"
    and at: "\<forall>k \<in> set rest. region_size (regions d ! k) \<noteq> 0 \<longrightarrow>
          k < length bs \<and> bar_size (bs ! k) = region_size (regions d ! k)
          \<and> (bars hdr k AND PCI_BASE_ADDRESS_SPACE_IO = 0 \<longrightarrow>
               bars hdr k AND PCI_BASE_ADDRESS_MEM_TYPE_64 = 0)"
    by auto
  have i_rest: "i \<notin> set rest"
    using Cons.prems(2) by simp
  show ?case
  proof (intro exI [of _ hdr] exI [of _ bs] conjI)
    show "d' = d\<lparr>pci_header := hdr, pci_bars := bs\<rparr>"
      using eq by simp
    show "length hdr = length (pci_header d)" "length bs = length (pci_bars d)"
      using len len1 by simp_all
    show "\<forall>j. j < 16 \<or> 40 \<le> j \<longrightarrow> hdr ! j = pci_header d ! j"
      using out out1 by simp
    show "\<forall>k. k \<notin> set (i # rest) \<longrightarrow> bars hdr k = bars (pci_header d) k \<and> bs ! k = pci_bars d ! k"
      using oth oth1 by simp
    show "\<forall>k \<in> set (i # rest). region_size (regions d ! k) \<noteq> 0 \<longrightarrow>
          k < length bs \<and> bar_size (bs ! k) = region_size (regions d ! k)
          \<and> (bars hdr k AND PCI_BASE_ADDRESS_SPACE_IO = 0 \<longrightarrow>
               bars hdr k AND PCI_BASE_ADDRESS_MEM_TYPE_64 = 0)"
      using at at1 oth i_rest len by auto
  qed
qed

subsection \<open>The capability walk\<close>



subsection \<open>What config-space synthesis leaves\<close>

lemma sys_pread_snd_fields [simp]:
  "open_fds (snd (sys_pread ev h fd len off)) = open_fds h"
  "polling (snd (sys_pread ev h fd len off)) = polling h"
  "listeners (snd (sys_pread ev h fd len off)) = listeners h"
  by (simp_all add: sys_pread_def Let_def)

lemma sys_pwrite_snd_fields [simp]:
  "open_fds (snd (sys_pwrite ev h fd bs off)) = open_fds h"
  "polling (snd (sys_pwrite ev h fd bs off)) = polling h"
  "listeners (snd (sys_pwrite ev h fd bs off)) = listeners h"
  by (simp_all add: sys_pwrite_def Let_def)

lemma sys_pread_full:
  assumes "int len \<le> fst (fst (sys_pread ev h fd len off))"
  shows "length (snd (fst (sys_pread ev h fd len off))) = len
     \<and> (\<exists>bs. pread_result ev fd len off = Some bs \<and> len \<le> length bs
              \<and> snd (fst (sys_pread ev h fd len off)) = take len bs)"
  using assms by (auto simp: sys_pread_def Let_def split: option.splits if_splits)

lemma SetupPciConfiguration_unfold:
  assumes "VFIO_PCI_CONFIG_REGION_INDEX < length (regions d)"
    and "of_nat PCI_DEVICE_CONFIG_SIZE \<le> region_size (regions d ! VFIO_PCI_CONFIG_REGION_INDEX)"
    and "int PCI_DEVICE_CONFIG_SIZE \<le> fst (fst (sys_pread ev h (device_fd d) PCI_DEVICE_CONFIG_SIZE
            (region_offset (regions d ! VFIO_PCI_CONFIG_REGION_INDEX))))"
  shows "SetupPciConfiguration ev d h =
     (let h1 = snd (sys_pread ev h (device_fd d) PCI_DEVICE_CONFIG_SIZE
                  (region_offset (regions d ! VFIO_PCI_CONFIG_REGION_INDEX)));
          hdr0 = snd (fst (sys_pread ev h (device_fd d) PCI_DEVICE_CONFIG_SIZE
                  (region_offset (regions d ! VFIO_PCI_CONFIG_REGION_INDEX))))
      in if header_type (set_header_type (set_irq_pin hdr0 0)
                           (header_type (set_irq_pin hdr0 0) AND NOT PCI_MULTI_FUNCTION))
              \<noteq> PCI_HEADER_TYPE_NORMAL
         then Some (Inl (MV_ASSERT ''pci_header_.header_type == PCI_HEADER_TYPE_NORMAL'', h1))
         else (case setup_bars (d\<lparr>pci_header := sanitized hdr0\<rparr>) [0 ..< VFIO_PCI_ROM_REGION_INDEX] of
                 Inl e \<Rightarrow> Some (Inl (e, h1))
               | Inr d1 \<Rightarrow>
                   (case (if header_status (pci_header d1) AND PCI_STATUS_CAP_LIST \<noteq> 0
                          then walk_capabilities (pci_header d1) (msi_config d1)
                                 (unat (capability (pci_header d1) AND NOT 3))
                          else Some (Inr (msi_config d1))) of
                      None \<Rightarrow> None
                    | Some (Inl e) \<Rightarrow> Some (Inl (e, h1))
                    | Some (Inr msi) \<Rightarrow>
                        Some (Inr (d1\<lparr>msi_config := msi\<rparr>,
                                   snd (sys_pwrite ev h1 (device_fd d)
                                     (take PCI_DEVICE_CONFIG_SIZE (pci_header d1))
                                     (region_offset (regions d ! VFIO_PCI_CONFIG_REGION_INDEX))))))))"
  using assms sys_pread_full [OF assms(3)]
  by (simp add: SetupPciConfiguration_def Let_def split_def sanitized_def not_less
           split: sum.splits option.splits)

lemma sanitized_length [simp]: "length (sanitized hdr0) = length hdr0"
  by (simp add: sanitized_def set_class_code_def set_header_type_def set_irq_pin_def)

lemma sanitized_other:
  "j \<notin> {9, 10, 11, 14, 61} \<Longrightarrow> sanitized hdr0 ! j = hdr0 ! j"
  by (simp add: sanitized_def set_class_code_def set_header_type_def set_irq_pin_def)

lemma class_code_bytes:
  "(ucast (0x030200 :: u32) :: u8) = 0" "(ucast (drop_bit 8 (0x030200 :: u32)) :: u8) = 2"
  "(ucast (drop_bit 16 (0x030200 :: u32)) :: u8) = 3"
  "(ucast (0 :: u8) OR push_bit 8 (ucast (2 :: u8)) OR push_bit 16 (ucast (3 :: u8)) :: u32) = 0x030200"
  by simp_all

lemma sanitized_fields:
  assumes "62 \<le> length hdr0"
  shows "sanitized hdr0 ! 61 = 0"
    and "sanitized hdr0 ! 14 = hdr0 ! 14 AND NOT PCI_MULTI_FUNCTION"
    and "sanitized hdr0 ! 9 = 0" and "sanitized hdr0 ! 10 = 2" and "sanitized hdr0 ! 11 = 3"
  using assms
  by (simp_all add: sanitized_def set_class_code_def set_header_type_def set_irq_pin_def
        header_type_def class_code_bytes)

lemma SetupPciConfiguration_early:
  assumes "\<not> (VFIO_PCI_CONFIG_REGION_INDEX < length (regions d)
    \<and> of_nat PCI_DEVICE_CONFIG_SIZE \<le> region_size (regions d ! VFIO_PCI_CONFIG_REGION_INDEX)
    \<and> int PCI_DEVICE_CONFIG_SIZE \<le> fst (fst (sys_pread ev h (device_fd d) PCI_DEVICE_CONFIG_SIZE
            (region_offset (regions d ! VFIO_PCI_CONFIG_REGION_INDEX)))))"
  shows "\<exists>e. SetupPciConfiguration ev d h = Some (Inl e)"
  using assms by (auto simp: SetupPciConfiguration_def Let_def split_def)

lemma SetupPciConfiguration_Inr:
  assumes "SetupPciConfiguration ev d h = Some (Inr (d', h'))"
  shows "\<exists>hdr bs msi. d' = d\<lparr>pci_header := hdr, pci_bars := bs, msi_config := msi\<rparr>
     \<and> length hdr = 256 \<and> length bs = length (pci_bars d)
     \<and> irq_pin hdr = 0 \<and> header_type hdr = PCI_HEADER_TYPE_NORMAL \<and> class_code hdr = 0x030200
     \<and> (\<forall>i < 6. region_size (regions d ! i) \<noteq> 0 \<longrightarrow>
           i < length bs \<and> bar_size (bs ! i) = region_size (regions d ! i)
           \<and> (bars hdr i AND PCI_BASE_ADDRESS_SPACE_IO = 0 \<longrightarrow>
                bars hdr i AND PCI_BASE_ADDRESS_MEM_TYPE_64 = 0))
     \<and> open_fds h' = open_fds h \<and> polling h' = polling h \<and> listeners h' = listeners h
     \<and> VFIO_PCI_CONFIG_REGION_INDEX < length (regions d)"
proof -
  let ?off = "region_offset (regions d ! VFIO_PCI_CONFIG_REGION_INDEX)"
  let ?rd = "sys_pread ev h (device_fd d) PCI_DEVICE_CONFIG_SIZE ?off"
  let ?hdr0 = "snd (fst ?rd)"
  have pre: "VFIO_PCI_CONFIG_REGION_INDEX < length (regions d)"
    "of_nat PCI_DEVICE_CONFIG_SIZE \<le> region_size (regions d ! VFIO_PCI_CONFIG_REGION_INDEX)"
    "int PCI_DEVICE_CONFIG_SIZE \<le> fst (fst ?rd)"
    using assms SetupPciConfiguration_early [of d ev h] by auto
  have len0: "length ?hdr0 = 256"
    using sys_pread_full [OF pre(3)] by (simp add: PCI_DEVICE_CONFIG_SIZE_def)
  have "\<exists>d1 msi.
      header_type (set_header_type (set_irq_pin ?hdr0 0)
            (header_type (set_irq_pin ?hdr0 0) AND NOT PCI_MULTI_FUNCTION)) = PCI_HEADER_TYPE_NORMAL
    \<and> setup_bars (d\<lparr>pci_header := sanitized ?hdr0\<rparr>) [0 ..< VFIO_PCI_ROM_REGION_INDEX] = Inr d1
    \<and> d' = d1\<lparr>msi_config := msi\<rparr>
    \<and> h' = snd (sys_pwrite ev (snd ?rd) (device_fd d)
                (take PCI_DEVICE_CONFIG_SIZE (pci_header d1)) ?off)"
  proof (cases "setup_bars (d\<lparr>pci_header := sanitized ?hdr0\<rparr>) [0 ..< VFIO_PCI_ROM_REGION_INDEX]")
    case (Inl e)
    then show ?thesis
      using assms unfolding SetupPciConfiguration_unfold [OF pre]
      by (simp add: Let_def split: if_splits)
  next
    case (Inr d1)
    let ?walk = "if header_status (pci_header d1) AND PCI_STATUS_CAP_LIST \<noteq> 0
                 then walk_capabilities (pci_header d1) (msi_config d1)
                        (unat (capability (pci_header d1) AND NOT 3))
                 else Some (Inr (msi_config d1))"
    from assms Inr obtain msi where "?walk = Some (Inr msi)"
      unfolding SetupPciConfiguration_unfold [OF pre]
      by (cases ?walk) (auto simp: Let_def split: if_splits sum.splits)
    with assms Inr show ?thesis
      unfolding SetupPciConfiguration_unfold [OF pre]
      by (intro exI [of _ d1] exI [of _ msi]) (simp add: Let_def split: if_splits)
  qed
  then obtain d1 msi where
    ht: "header_type (set_header_type (set_irq_pin ?hdr0 0)
            (header_type (set_irq_pin ?hdr0 0) AND NOT PCI_MULTI_FUNCTION)) = PCI_HEADER_TYPE_NORMAL"
    and sb: "setup_bars (d\<lparr>pci_header := sanitized ?hdr0\<rparr>) [0 ..< VFIO_PCI_ROM_REGION_INDEX] = Inr d1"
    and d': "d' = d1\<lparr>msi_config := msi\<rparr>"
    and h': "h' = snd (sys_pwrite ev (snd ?rd) (device_fd d)
                (take PCI_DEVICE_CONFIG_SIZE (pci_header d1)) ?off)"
    by blast
  from setup_bars_Inr [OF sb] len0
  obtain hdr bs where
    eq: "d1 = d\<lparr>pci_header := hdr, pci_bars := bs\<rparr>"
    and len: "length hdr = length ?hdr0" "length bs = length (pci_bars d)"
    and out: "\<forall>j. j < 16 \<or> 40 \<le> j \<longrightarrow> hdr ! j = sanitized ?hdr0 ! j"
    and at: "\<forall>i \<in> set [0 ..< VFIO_PCI_ROM_REGION_INDEX]. region_size (regions d ! i) \<noteq> 0 \<longrightarrow>
          i < length bs \<and> bar_size (bs ! i) = region_size (regions d ! i)
          \<and> (bars hdr i AND PCI_BASE_ADDRESS_SPACE_IO = 0 \<longrightarrow>
               bars hdr i AND PCI_BASE_ADDRESS_MEM_TYPE_64 = 0)"
    by (auto simp: VFIO_PCI_ROM_REGION_INDEX_def)
  have f: "62 \<le> length ?hdr0"
    using len0 by simp
  have "irq_pin hdr = 0"
    using out sanitized_fields(1) [OF f] by (simp add: irq_pin_def)
  moreover have "header_type hdr = PCI_HEADER_TYPE_NORMAL"
    using out sanitized_fields(2) [OF f] ht len0
    by (simp add: header_type_def set_header_type_def set_irq_pin_def)
  moreover have "class_code hdr = 0x030200"
    using out sanitized_fields(3,4,5) [OF f] by (simp add: class_code_def class_code_bytes)
  ultimately show ?thesis
    using eq d' h' len len0 at pre(1)
    by (intro exI [of _ hdr] exI [of _ bs] exI [of _ msi])
       (simp add: VFIO_PCI_ROM_REGION_INDEX_def)
qed

subsection \<open>What the later attach steps leave\<close>

lemma apply_region_caps_fields [simp]:
  "region_flags (apply_region_caps r caps) = region_flags r"
  "region_size (apply_region_caps r caps) = region_size r"
  "region_offset (apply_region_caps r caps) = region_offset r"
  by (induction r caps rule: apply_region_caps.induct) simp_all

lemma store_region_length [simp]: "length (store_region rs index info) = length rs"
  by (simp add: store_region_def Let_def)

lemma store_region_populated:
  assumes "\<forall>r \<in> set rs. region_flags r \<noteq> 0 \<longrightarrow> region_size r \<noteq> 0"
  shows "\<forall>r \<in> set (store_region rs index info). region_flags r \<noteq> 0 \<longrightarrow> region_size r \<noteq> 0"
proof
  fix r
  assume "r \<in> set (store_region rs index info)"
  then consider "r \<in> set rs"
    | "ri_size info \<noteq> 0"
      "r = (let region = (rs ! index)\<lparr>region_index := index, region_flags := ri_flags info,
                            region_offset := ri_offset info, region_size := ri_size info\<rparr>
            in (if ri_flags info AND VFIO_REGION_INFO_FLAG_CAPS \<noteq> 0 \<and> ri_cap_offset info \<noteq> 0
                then apply_region_caps region (ri_caps info) else region))"
    using set_update_subset_insert [of rs index]
    by (auto simp: store_region_def Let_def split: if_splits)
  then show "region_flags r \<noteq> 0 \<longrightarrow> region_size r \<noteq> 0"
  proof cases
    case 1
    then show ?thesis using assms by simp
  next
    case 2
    then show ?thesis by (simp add: Let_def)
  qed
qed

lemma get_region_info_Inr:
  "get_region_info ev h fd index = Inr (info, h') \<Longrightarrow>
     open_fds h' = open_fds h \<and> polling h' = polling h \<and> listeners h' = listeners h"
  by (auto simp: get_region_info_def Let_def bind_r_Inr_iff split: if_splits dest!: assert_ioctl_Inr)

lemma find_regions_Inr:
  "find_regions ev d h idxs = Inr (d', h') \<Longrightarrow>
     (\<forall>r \<in> set (regions d). region_flags r \<noteq> 0 \<longrightarrow> region_size r \<noteq> 0) \<Longrightarrow>
     (\<exists>rs. d' = d\<lparr>regions := rs\<rparr> \<and> length rs = length (regions d)
        \<and> (\<forall>r \<in> set rs. region_flags r \<noteq> 0 \<longrightarrow> region_size r \<noteq> 0))
     \<and> open_fds h' = open_fds h \<and> polling h' = polling h \<and> listeners h' = listeners h"
proof (induction idxs arbitrary: d h)
  case Nil
  then show ?case by (auto intro: exI [of _ "regions d"])
next
  case (Cons index rest)
  from Cons.prems(1) obtain info h1 where
    info: "get_region_info ev h (device_fd d) index = Inr (info, h1)"
    and rest: "find_regions ev (d\<lparr>regions := store_region (regions d) index info\<rparr>) h1 rest = Inr (d', h')"
    by (auto simp: bind_r_Inr_iff)
  have inv: "\<forall>r \<in> set (regions (d\<lparr>regions := store_region (regions d) index info\<rparr>)).
      region_flags r \<noteq> 0 \<longrightarrow> region_size r \<noteq> 0"
    using store_region_populated [OF Cons.prems(2)] by simp
  from Cons.IH [OF rest inv] get_region_info_Inr [OF info]
  show ?case by auto
qed

lemma find_interrupts_Inr:
  "find_interrupts ev d h idxs = Inr h' \<Longrightarrow>
     open_fds h' = open_fds h \<and> polling h' = polling h \<and> listeners h' = listeners h"
proof (induction idxs arbitrary: h)
  case Nil
  then show ?case by simp
next
  case (Cons index rest)
  from Cons.prems have
    "find_interrupts ev d (snd (sys_ioctl ev h (device_fd d) (VFIO_DEVICE_GET_IRQ_INFO index))) rest = Inr h'"
    by (simp add: Let_def split_def split: if_splits)
  from Cons.IH [OF this] show ?case
    by (simp add: sys_ioctl_def Let_def log_event_def)
qed

lemma sys_get_device_fd_cases:
  "sys_get_device_fd ev h gfd name = (fd, h') \<Longrightarrow>
     (fd = - 1 \<and> open_fds h' = open_fds h \<or>
      fd = lowest_free (open_fds h) \<and> open_fds h' = fd # open_fds h)
     \<and> polling h' = polling h \<and> listeners h' = listeners h"
  by (auto simp: sys_get_device_fd_def new_fd_def Let_def log_event_def split: if_splits)

lemma empty_regions_populated:
  "\<forall>r \<in> set (map (\<lambda>r. empty_region) rs). region_flags r \<noteq> 0 \<longrightarrow> region_size r \<noteq> 0"
  by (simp add: empty_region_def)

lemma SetupVfioDevice_Inr:
  assumes "SetupVfioDevice ev d h = Inr (d', h')" and "\<forall>fd \<in> set (open_fds h). 0 \<le> fd"
  shows "(\<exists>name info rs. d' = d\<lparr>device_name := name, device_fd := lowest_free (open_fds h),
              device_info := info, regions := rs, interrupts := map (\<lambda>i. - 1) (interrupts d)\<rparr>
            \<and> length rs = length (regions d)
            \<and> (\<forall>r \<in> set rs. region_flags r \<noteq> 0 \<longrightarrow> region_size r \<noteq> 0))
     \<and> open_fds h' = lowest_free (open_fds h) # open_fds h
     \<and> polling h' = polling h \<and> listeners h' = listeners h"
proof -
  let ?name = "basename_gnu (sysfs_path d)"
  obtain fd h1 where get: "sys_get_device_fd ev h (group_fd d) ?name = (fd, h1)"
    by (cases "sys_get_device_fd ev h (group_fd d) ?name") auto
  let ?d2 = "d\<lparr>device_name := ?name, device_fd := fd, device_info := device_info_reply ev\<rparr>"
  from assms(1) get obtain h2 d3 h3 where
    info: "assert_ioctl ev h1 fd VFIO_DEVICE_GET_INFO False 0 ''VFIO_DEVICE_GET_INFO'' = Inr h2"
    and regs: "find_regions ev (?d2\<lparr>regions := map (\<lambda>r. empty_region) (regions ?d2)\<rparr>) h2
                 [VFIO_PCI_BAR0_REGION_INDEX ..< num_regions (device_info_reply ev)] = Inr (d3, h3)"
    and irqs: "find_interrupts ev (d3\<lparr>interrupts := map (\<lambda>i. - 1) (interrupts d3)\<rparr>) h3
                 [0 ..< num_irqs (device_info_reply ev)] = Inr h'"
    and d': "d' = d3\<lparr>interrupts := map (\<lambda>i. - 1) (interrupts d3)\<rparr>"
    by (auto simp: SetupVfioDevice_def Let_def bind_r_Inr_iff split: if_splits)
  have "fd \<in> set (open_fds h1)"
    using assert_ioctl_zero_open [OF info] .
  moreover have "- 1 \<notin> set (open_fds h)"
    using assms(2) by force
  ultimately have fd: "fd = lowest_free (open_fds h)" "open_fds h1 = fd # open_fds h"
    "polling h1 = polling h" "listeners h1 = listeners h"
    using sys_get_device_fd_cases [OF get] by auto
  have inv: "\<forall>r \<in> set (regions (?d2\<lparr>regions := map (\<lambda>r. empty_region) (regions ?d2)\<rparr>)).
      region_flags r \<noteq> 0 \<longrightarrow> region_size r \<noteq> 0"
    using empty_regions_populated [of "regions d"] by simp
  from find_regions_Inr [OF regs inv] obtain rs where
    d3: "d3 = ?d2\<lparr>regions := map (\<lambda>r. empty_region) (regions ?d2)\<rparr>\<lparr>regions := rs\<rparr>"
    and rs: "length rs = length (regions d)"
      "\<forall>r \<in> set rs. region_flags r \<noteq> 0 \<longrightarrow> region_size r \<noteq> 0"
    and h3: "open_fds h3 = open_fds h2" "polling h3 = polling h2" "listeners h3 = listeners h2"
    by auto
  have "d' = d\<lparr>device_name := ?name, device_fd := lowest_free (open_fds h),
              device_info := device_info_reply ev, regions := rs,
              interrupts := map (\<lambda>i. - 1) (interrupts d)\<rparr>"
    using d' d3 fd(1) by simp
  then show ?thesis
    using rs h3 fd assert_ioctl_Inr [OF info] find_interrupts_Inr [OF irqs] by auto
qed

lemma setup_vectors_one:
  assumes "setup_vectors ev d h [0] = Inr (d', h')"
  shows "d' = d\<lparr>interrupts := (interrupts d)[0 := lowest_free (open_fds h)]\<rparr>
     \<and> 0 < length (interrupts d)
     \<and> open_fds h' = lowest_free (open_fds h) # open_fds h
     \<and> polling h' = lowest_free (open_fds h) # polling h \<and> listeners h' = listeners h
     \<and> trace h' = trace h @ [Eventfd (lowest_free (open_fds h)), StartPolling (lowest_free (open_fds h))]"
  using assms
  by (auto simp: sys_eventfd_def new_fd_def Let_def log_event_def StartPolling_io_def
           split: if_splits)

lemma SetupPciInterrupts_Inr:
  assumes "SetupPciInterrupts ev d h = Inr (d', h')"
  shows "d' = d\<lparr>interrupts := (interrupts d)[0 := lowest_free (open_fds h)]\<rparr>
     \<and> 0 < length (interrupts d)
     \<and> open_fds h' = lowest_free (open_fds h) # open_fds h
     \<and> polling h' = lowest_free (open_fds h) # polling h \<and> listeners h' = listeners h"
proof -
  from assms obtain control where "msi64_control d = Some control" "nr_vectors_of control = 1"
    and "setup_vectors ev d h [0 ..< nr_vectors_of control] = Inr (d', h')"
    by (auto simp: SetupPciInterrupts_def split: if_splits option.splits)
  then have "setup_vectors ev d h [0] = Inr (d', h')"
    by simp
  from setup_vectors_one [OF this] show ?thesis
    by simp
qed

lemma SetupGfxPlane_Inr:
  "SetupGfxPlane ev d h = Inr (d, snd (sys_ioctl ev h (device_fd d)
      (VFIO_DEVICE_QUERY_GFX_PLANE (VFIO_GFX_PLANE_TYPE_PROBE OR VFIO_GFX_PLANE_TYPE_REGION))))"
  by (simp add: SetupGfxPlane_def split_def)

lemma map_ram_slots_Inr:
  "map_ram_slots ev d h slots = Inr h' \<Longrightarrow>
     open_fds h' = open_fds h \<and> polling h' = polling h \<and> listeners h' = listeners h"
proof (induction slots arbitrary: h)
  case Nil
  then show ?case by simp
next
  case (Cons slot slots)
  show ?case
  proof (cases "slot_region_type slot = kMemoryTypeRam")
    case True
    with Cons.prems obtain h1 where m: "MapDmaPages ev d h slot = Inr h1"
      and r: "map_ram_slots ev d h1 slots = Inr h'"
      by (auto simp: bind_r_Inr_iff)
    from m have "open_fds h1 = open_fds h \<and> polling h1 = polling h \<and> listeners h1 = listeners h"
      by (auto simp: MapDmaPages_def Let_def sys_ioctl_def log_event_def split: if_splits)
    with Cons.IH [OF r] show ?thesis by simp
  next
    case False
    with Cons.prems Cons.IH show ?thesis by simp
  qed
qed

lemma fold_max_ge: "x \<in> set xs \<Longrightarrow> x \<le> fold max xs (a :: nat)"
proof (induction xs arbitrary: a)
  case Nil
  then show ?case by simp
next
  case (Cons y ys)
  have mono: "\<And>b. b \<le> fold max ys (b :: nat)"
  proof -
    fix b :: nat
    show "b \<le> fold max ys b"
      by (induction ys arbitrary: b) (auto intro: order_trans [OF max.cobounded2])
  qed
  show ?case
  proof (cases "x = y")
    case True
    then show ?thesis using mono [of "max y a"] by simp
  next
    case False
    with Cons show ?thesis by simp
  qed
qed

lemma SetupDmaMaps_Inr:
  assumes "SetupDmaMaps ev d h = Inr (d', h')"
  shows "\<exists>l. d' = d\<lparr>memory_listener := Some l\<rparr> \<and> l \<notin> set (listeners h)
     \<and> open_fds h' = open_fds h \<and> polling h' = polling h \<and> listeners h' = l # listeners h"
proof -
  from assms obtain h1 where m: "map_ram_slots ev d h (flat_view ev) = Inr h1"
    and r: "d' = d\<lparr>memory_listener := Some (fst (RegisterMemoryListener_mm h1))\<rparr>"
      "h' = snd (RegisterMemoryListener_mm h1)"
    by (auto simp: SetupDmaMaps_def bind_r_Inr_iff split_def Let_def)
  let ?l = "Suc (fold max (listeners h1) 0)"
  have "?l \<notin> set (listeners h1)"
    using fold_max_ge [of ?l "listeners h1" 0] by auto
  with r map_ram_slots_Inr [OF m] show ?thesis
    by (auto simp: RegisterMemoryListener_mm_def Let_def log_event_def)
qed

subsection \<open>A successful attach\<close>

lemma Connect_steps:
  assumes "Connect ev kv d h = Some (Inr (d', h'))"
  shows "\<exists>path d1 h1 d2 h2 d3 h3 d4 h4 d5 h5 d6 h6.
      kv ''sysfs'' = Some path
    \<and> SetupVfioGroup ev (d\<lparr>sysfs_path := path\<rparr>) (log_event h PciDevice_Connect) = Inr (d1, h1)
    \<and> SetupVfioContainer ev d1 h1 = Inr (d2, h2)
    \<and> SetupVfioDevice ev d2 h2 = Inr (d3, h3)
    \<and> SetupPciConfiguration ev d3 h3 = Some (Inr (d4, h4))
    \<and> SetupPciInterrupts ev d4 h4 = Inr (d5, h5)
    \<and> SetupGfxPlane ev d5 h5 = Inr (d6, h6)
    \<and> SetupDmaMaps ev d6 h6 = Inr (d', h')"
proof -
  from assms obtain path where path: "kv ''sysfs'' = Some path"
    by (auto simp: Connect_def Let_def split: option.splits)
  let ?first = "bind_r (SetupVfioGroup ev (d\<lparr>sysfs_path := path\<rparr>) (log_event h PciDevice_Connect))
      (\<lambda>(d1, h1). bind_r (SetupVfioContainer ev d1 h1) (\<lambda>(d2, h2). SetupVfioDevice ev d2 h2))"
  from assms path obtain d3 h3 where first: "?first = Inr (d3, h3)"
    by (cases ?first) (auto simp: Connect_def Let_def)
  from assms path first obtain r where r: "SetupPciConfiguration ev d3 h3 = Some r"
    and rest: "bind_r r (\<lambda>(d4, h4). bind_r (SetupPciInterrupts ev d4 h4) (\<lambda>(d5, h5).
                 bind_r (SetupGfxPlane ev d5 h5) (\<lambda>(d6, h6). SetupDmaMaps ev d6 h6))) = Inr (d', h')"
    by (cases "SetupPciConfiguration ev d3 h3") (auto simp: Connect_def Let_def)
  from first rest r path show ?thesis
    by (auto simp: bind_r_Inr_iff)
qed

lemma Connect_Inr:
  assumes "Connect ev kv d h = Some (Inr (d', h'))" and "\<forall>fd \<in> set (open_fds h). 0 \<le> fd"
  shows "group_fd d' = lowest_free (open_fds h)"
    and "container_fd d' = lowest_free (group_fd d' # open_fds h)"
    and "device_fd d' = lowest_free (container_fd d' # group_fd d' # open_fds h)"
    and "interrupts d' = (map (\<lambda>i. - 1) (interrupts d))
           [0 := lowest_free (device_fd d' # container_fd d' # group_fd d' # open_fds h)]"
    and "interrupts d \<noteq> []"
    and "open_fds h' = lowest_free (device_fd d' # container_fd d' # group_fd d' # open_fds h)
           # device_fd d' # container_fd d' # group_fd d' # open_fds h"
    and "polling h' = lowest_free (device_fd d' # container_fd d' # group_fd d' # open_fds h) # polling h"
    and "\<exists>l. memory_listener d' = Some l \<and> l \<notin> set (listeners h) \<and> listeners h' = l # listeners h"
    and "io_resources d' = io_resources d"
    and "length (pci_header d') = 256 \<and> irq_pin (pci_header d') = 0
         \<and> header_type (pci_header d') = PCI_HEADER_TYPE_NORMAL \<and> class_code (pci_header d') = 0x030200"
    and "length (regions d') = length (regions d) \<and> length (pci_bars d') = length (pci_bars d)
         \<and> VFIO_PCI_CONFIG_REGION_INDEX < length (regions d')"
    and "\<forall>r \<in> set (regions d'). region_flags r \<noteq> 0 \<longrightarrow> region_size r \<noteq> 0"
    and "\<forall>i < 6. region_size (regions d' ! i) \<noteq> 0 \<longrightarrow>
           i < length (pci_bars d') \<and> bar_size (pci_bars d' ! i) = region_size (regions d' ! i)
           \<and> (bars (pci_header d') i AND PCI_BASE_ADDRESS_SPACE_IO = 0 \<longrightarrow>
                bars (pci_header d') i AND PCI_BASE_ADDRESS_MEM_TYPE_64 = 0)"
proof -
  from Connect_steps [OF assms(1)] obtain path d1 h1 d2 h2 d3 h3 d4 h4 d5 h5 d6 h6 where
    s1: "SetupVfioGroup ev (d\<lparr>sysfs_path := path\<rparr>) (log_event h PciDevice_Connect) = Inr (d1, h1)"
    and s2: "SetupVfioContainer ev d1 h1 = Inr (d2, h2)"
    and s3: "SetupVfioDevice ev d2 h2 = Inr (d3, h3)"
    and s4: "SetupPciConfiguration ev d3 h3 = Some (Inr (d4, h4))"
    and s5: "SetupPciInterrupts ev d4 h4 = Inr (d5, h5)"
    and s6: "SetupGfxPlane ev d5 h5 = Inr (d6, h6)"
    and s7: "SetupDmaMaps ev d6 h6 = Inr (d', h')"
    by blast
  let ?g = "lowest_free (open_fds h)"
  let ?c = "lowest_free (?g # open_fds h)"
  let ?v = "lowest_free (?c # ?g # open_fds h)"
  let ?e = "lowest_free (?v # ?c # ?g # open_fds h)"
  from SetupVfioGroup_Inr [OF s1] obtain gid where
    d1: "d1 = d\<lparr>sysfs_path := path, group_id := gid, group_fd := ?g\<rparr>"
    and h1: "open_fds h1 = ?g # open_fds h" "polling h1 = polling h" "listeners h1 = listeners h"
    by auto
  from SetupVfioContainer_Inr [OF s2] h1 have
    d2: "d2 = d1\<lparr>container_fd := ?c\<rparr>"
    and h2: "open_fds h2 = ?c # ?g # open_fds h" "polling h2 = polling h" "listeners h2 = listeners h"
    by auto
  have wf2: "\<forall>fd \<in> set (open_fds h2). 0 \<le> fd"
    using assms(2) h2(1) lowest_free_nonneg by auto
  from SetupVfioDevice_Inr [OF s3 wf2] h2 obtain name info rs where
    d3: "d3 = d2\<lparr>device_name := name, device_fd := ?v, device_info := info, regions := rs,
                  interrupts := map (\<lambda>i. - 1) (interrupts d2)\<rparr>"
    and rs: "length rs = length (regions d2)" "\<forall>r \<in> set rs. region_flags r \<noteq> 0 \<longrightarrow> region_size r \<noteq> 0"
    and h3: "open_fds h3 = ?v # ?c # ?g # open_fds h" "polling h3 = polling h" "listeners h3 = listeners h"
    by auto
  from SetupPciConfiguration_Inr [OF s4] obtain hdr bs msi where
    d4: "d4 = d3\<lparr>pci_header := hdr, pci_bars := bs, msi_config := msi\<rparr>"
    and hdr: "length hdr = 256" "irq_pin hdr = 0" "header_type hdr = PCI_HEADER_TYPE_NORMAL"
      "class_code hdr = 0x030200"
    and bs: "length bs = length (pci_bars d3)"
      "\<forall>i < 6. region_size (regions d3 ! i) \<noteq> 0 \<longrightarrow>
           i < length bs \<and> bar_size (bs ! i) = region_size (regions d3 ! i)
           \<and> (bars hdr i AND PCI_BASE_ADDRESS_SPACE_IO = 0 \<longrightarrow>
                bars hdr i AND PCI_BASE_ADDRESS_MEM_TYPE_64 = 0)"
    and cfg: "VFIO_PCI_CONFIG_REGION_INDEX < length (regions d3)"
    and h4: "open_fds h4 = open_fds h3" "polling h4 = polling h3" "listeners h4 = listeners h3"
    by blast
  from SetupPciInterrupts_Inr [OF s5] h4 h3 have
    d5: "d5 = d4\<lparr>interrupts := (interrupts d4)[0 := ?e]\<rparr>"
    and ne: "0 < length (interrupts d4)"
    and h5: "open_fds h5 = ?e # ?v # ?c # ?g # open_fds h" "polling h5 = ?e # polling h"
      "listeners h5 = listeners h"
    by auto
  from s6 have d6: "d6 = d5"
    and h6: "open_fds h6 = open_fds h5" "polling h6 = polling h5" "listeners h6 = listeners h5"
    by (auto simp: SetupGfxPlane_Inr sys_ioctl_def Let_def log_event_def)
  from SetupDmaMaps_Inr [OF s7] obtain l where
    d': "d' = d6\<lparr>memory_listener := Some l\<rparr>" and l: "l \<notin> set (listeners h6)"
    and h': "open_fds h' = open_fds h6" "polling h' = polling h6" "listeners h' = l # listeners h6"
    by auto
  show "group_fd d' = lowest_free (open_fds h)"
    by (simp add: d' d6 d5 d4 d3 d2 d1)
  show "container_fd d' = lowest_free (group_fd d' # open_fds h)"
    by (simp add: d' d6 d5 d4 d3 d2 d1)
  show "device_fd d' = lowest_free (container_fd d' # group_fd d' # open_fds h)"
    by (simp add: d' d6 d5 d4 d3 d2 d1)
  show "interrupts d' = (map (\<lambda>i. - 1) (interrupts d))
           [0 := lowest_free (device_fd d' # container_fd d' # group_fd d' # open_fds h)]"
    by (simp add: d' d6 d5 d4 d3 d2 d1)
  show "interrupts d \<noteq> []"
    using ne by (simp add: d4 d3 d2 d1)
  show "open_fds h' = lowest_free (device_fd d' # container_fd d' # group_fd d' # open_fds h)
           # device_fd d' # container_fd d' # group_fd d' # open_fds h"
    by (simp add: d' d6 d5 d4 d3 d2 d1 h' h6 h5)
  show "polling h' = lowest_free (device_fd d' # container_fd d' # group_fd d' # open_fds h) # polling h"
    by (simp add: d' d6 d5 d4 d3 d2 d1 h' h6 h5)
  show "\<exists>l. memory_listener d' = Some l \<and> l \<notin> set (listeners h) \<and> listeners h' = l # listeners h"
    using l by (simp add: d' h' h6 h5)
  show "io_resources d' = io_resources d"
    by (simp add: d' d6 d5 d4 d3 d2 d1)
  show "length (pci_header d') = 256 \<and> irq_pin (pci_header d') = 0
         \<and> header_type (pci_header d') = PCI_HEADER_TYPE_NORMAL \<and> class_code (pci_header d') = 0x030200"
    using hdr by (simp add: d' d6 d5 d4)
  show "length (regions d') = length (regions d) \<and> length (pci_bars d') = length (pci_bars d)
         \<and> VFIO_PCI_CONFIG_REGION_INDEX < length (regions d')"
    using rs(1) bs(1) cfg by (simp add: d' d6 d5 d4 d3 d2 d1)
  show "\<forall>r \<in> set (regions d'). region_flags r \<noteq> 0 \<longrightarrow> region_size r \<noteq> 0"
    using rs(2) by (simp add: d' d6 d5 d4 d3)
  show "\<forall>i < 6. region_size (regions d' ! i) \<noteq> 0 \<longrightarrow>
           i < length (pci_bars d') \<and> bar_size (pci_bars d' ! i) = region_size (regions d' ! i)
           \<and> (bars (pci_header d') i AND PCI_BASE_ADDRESS_SPACE_IO = 0 \<longrightarrow>
                bars (pci_header d') i AND PCI_BASE_ADDRESS_MEM_TYPE_64 = 0)"
    using bs(2) by (simp add: d' d6 d5 d4)
qed

subsection \<open>Attaching the concrete device\<close>

lemma device_env_fields:
  "readlink_result (device_env f c) p =
     (if p = ''/sys/bus/mdev/devices/a1/iommu_group'' then Some ''../../../kernel/iommu_groups/12'' else None)"
  "open_succeeds (device_env f c) p = True"
  "ioctl_result (device_env f c) fd req = (case req of VFIO_CHECK_EXTENSION n \<Rightarrow> 1 | _ \<Rightarrow> 0)"
  "group_status_flags (device_env f c) = f"
  "iommu_info_reply (device_env f c) n =
     \<lparr>iommu_argsz = 24, iommu_flags = 0, iommu_cap_offset = 0, iommu_caps = []\<rparr>"
  "device_info_reply (device_env f c) = \<lparr>info_flags = 3, num_regions = 9, num_irqs = 5\<rparr>"
  "irq_info_reply (device_env f c) i = \<lparr>irq_flags = 1, irq_count = 1\<rparr>"
  "pread_result (device_env f c) fd n off = Some (take n (drop (unat (off - 0x70000000000)) c))"
  "pwrite_result (device_env f c) fd bs off = int (length bs)"
  "eventfd_succeeds (device_env f c) = True"
  "flat_view (device_env f c) = [\<lparr>slot_begin = 0, slot_end = 0x80000000, slot_hva = 0x7e0000000000,
                    slot_region_type = kMemoryTypeRam\<rparr>,
                  \<lparr>slot_begin = 0xE0000000, slot_end = 0xE1000000, slot_hva = 0,
                    slot_region_type = kMemoryTypeOther 2\<rparr>]"
  by (simp_all add: device_env_def)

lemma device_env_regions:
  "region_info_reply (device_env f c) i n =
     (if i = 0 then \<lparr>ri_argsz = 64, ri_flags = 15, ri_cap_offset = 32, ri_size = 0x1000000, ri_offset = 0,
                       ri_caps = [VFIO_REGION_INFO_CAP_SPARSE_MMAP [(0, 0x100000), (0x800000, 0x200000)]]\<rparr>
        else if i = 7 then \<lparr>ri_argsz = 32, ri_flags = 3, ri_cap_offset = 0, ri_size = 256,
                       ri_offset = 0x70000000000, ri_caps = []\<rparr>
        else \<lparr>ri_argsz = 32, ri_flags = 0, ri_cap_offset = 0, ri_size = 0, ri_offset = 0, ri_caps = []\<rparr>)"
  by (simp add: device_env_def)

lemma group_link:
  "sscanf_d (basename_gnu ''../../../kernel/iommu_groups/12'') = Some 12"
  "sprintf_d 12 = ''12''"
  "basename_gnu ''/sys/bus/mdev/devices/a1'' = ''a1''"
  by code_simp+

text \<open>A group number beyond the range of \<^verbatim>\<open>int\<close> is stored modulo \<open>2 ^ 32\<close>.\<close>

lemma sscanf_d_wraps: "sscanf_d ''4294967308'' = Some 12"
  by (simp add: sscanf_d_def digits_value_def isspace_c_def isdigit_c_def Let_def)

lemma lowest_free_example:
  "lowest_free [0, 1, 2] = 3" "lowest_free [3, 0, 1, 2] = 4" "lowest_free [4, 3, 0, 1, 2] = 5"
  "lowest_free [5, 4, 3, 0, 1, 2] = 6"
  by code_simp+

lemma SetupVfioGroup_device_env:
  assumes "open_fds h = [0, 1, 2]" and "sysfs_path d = ''/sys/bus/mdev/devices/a1''"
  shows "SetupVfioGroup (device_env f c) d h =
     (if f AND VFIO_GROUP_FLAGS_VIABLE = 0
      then Inl (MV_PANIC ''VFIO group is not viable'',
                h\<lparr>open_fds := [3, 0, 1, 2],
                   trace := trace h @ [Readlink ''/sys/bus/mdev/devices/a1/iommu_group'',
                     Open ''/dev/vfio/12'' 3, Ioctl 3 VFIO_GROUP_GET_STATUS 0]\<rparr>)
      else Inr (d\<lparr>group_id := 12, group_fd := 3\<rparr>,
                h\<lparr>open_fds := [3, 0, 1, 2],
                   trace := trace h @ [Readlink ''/sys/bus/mdev/devices/a1/iommu_group'',
                     Open ''/dev/vfio/12'' 3, Ioctl 3 VFIO_GROUP_GET_STATUS 0]\<rparr>))"
  using assms
  by (simp add: SetupVfioGroup_def Let_def device_env_fields group_link sys_open_def new_fd_def
        lowest_free_example sys_ioctl_def log_event_def)

lemma SetupVfioContainer_device_env:
  assumes "open_fds h = [3, 0, 1, 2]" and "group_fd d = 3"
  shows "SetupVfioContainer (device_env f c) d h =
     Inr (d\<lparr>container_fd := 4\<rparr>,
          h\<lparr>open_fds := [4, 3, 0, 1, 2],
             trace := trace h @ [Open ''/dev/vfio/vfio'' 4, Ioctl 4 VFIO_GET_API_VERSION 0,
               Ioctl 4 (VFIO_CHECK_EXTENSION 3) 1, Ioctl 3 (VFIO_GROUP_SET_CONTAINER 4) 0,
               Ioctl 4 (VFIO_SET_IOMMU 3) 0, Ioctl 4 (VFIO_IOMMU_GET_INFO 24) 0]\<rparr>)"
  using assms
  by (simp add: SetupVfioContainer_def Let_def device_env_fields sys_open_def new_fd_def
        lowest_free_example assert_ioctl_def sys_ioctl_def log_event_def VFIO_API_VERSION_def
        VFIO_TYPE1v2_IOMMU_def sizeof_vfio_iommu_type1_info_def VFIO_IOMMU_INFO_CAPS_def)

lemma index_lists:
  "[0 ..< 9] = [0, 1, 2, 3, 4, 5, 6, 7, 8]" "[0 ..< 5] = [0, 1, 2, 3, 4]" "[0 ..< 6] = [0, 1, 2, 3, 4, 5]"
  by code_simp+

lemma get_region_info_device_env:
  assumes "5 \<in> set (open_fds h)"
  shows "get_region_info (device_env f c) h 5 i =
     Inr (region_info_reply (device_env f c) i (if i = 0 then 64 else 32),
          h\<lparr>trace := trace h @ (if i = 0
             then [Ioctl 5 (VFIO_DEVICE_GET_REGION_INFO 0 32) 0, Ioctl 5 (VFIO_DEVICE_GET_REGION_INFO 0 64) 0]
             else [Ioctl 5 (VFIO_DEVICE_GET_REGION_INFO i 32) 0])\<rparr>)"
  using assms
  by (simp add: get_region_info_def Let_def device_env_fields device_env_regions
        assert_ioctl_def sys_ioctl_def log_event_def sizeof_vfio_region_info_def)

lemma find_interrupts_device_env:
  assumes "device_fd d = 5" and "5 \<in> set (open_fds h)"
  shows "find_interrupts (device_env f c) d h [0, Suc 0, 2, 3, 4] =
     Inr (h\<lparr>trace := trace h @ [Ioctl 5 (VFIO_DEVICE_GET_IRQ_INFO 0) 0, Ioctl 5 (VFIO_DEVICE_GET_IRQ_INFO 1) 0,
       Ioctl 5 (VFIO_DEVICE_GET_IRQ_INFO 2) 0, Ioctl 5 (VFIO_DEVICE_GET_IRQ_INFO 3) 0,
       Ioctl 5 (VFIO_DEVICE_GET_IRQ_INFO 4) 0]\<rparr>)"
  using assms
  by (simp add: Let_def device_env_fields sys_ioctl_def log_event_def VFIO_PCI_MSI_IRQ_INDEX_def
        VFIO_IRQ_INFO_EVENTFD_def)

lemma find_regions_device_env:
  assumes "device_fd d = 5" and "5 \<in> set (open_fds h)" and "regions d = replicate 9 empty_region"
  shows "find_regions (device_env f c) d h [0, Suc 0, 2, 3, 4, 5, 6, 7, 8] =
     Inr (d\<lparr>regions := regions attached_device\<rparr>,
          h\<lparr>trace := trace h @ [
       Ioctl 5 (VFIO_DEVICE_GET_REGION_INFO 0 32) 0, Ioctl 5 (VFIO_DEVICE_GET_REGION_INFO 0 64) 0,
       Ioctl 5 (VFIO_DEVICE_GET_REGION_INFO 1 32) 0, Ioctl 5 (VFIO_DEVICE_GET_REGION_INFO 2 32) 0,
       Ioctl 5 (VFIO_DEVICE_GET_REGION_INFO 3 32) 0, Ioctl 5 (VFIO_DEVICE_GET_REGION_INFO 4 32) 0,
       Ioctl 5 (VFIO_DEVICE_GET_REGION_INFO 5 32) 0, Ioctl 5 (VFIO_DEVICE_GET_REGION_INFO 6 32) 0,
       Ioctl 5 (VFIO_DEVICE_GET_REGION_INFO 7 32) 0, Ioctl 5 (VFIO_DEVICE_GET_REGION_INFO 8 32) 0]\<rparr>)"
  using assms
  by (simp add: get_region_info_device_env device_env_regions store_region_def Let_def
        VFIO_REGION_INFO_FLAG_CAPS_def empty_region_def attached_device_def)

lemma SetupVfioDevice_device_env:
  assumes "open_fds h = [4, 3, 0, 1, 2]" and "group_fd d = 3"
    and "sysfs_path d = ''/sys/bus/mdev/devices/a1''"
    and "regions d = replicate 9 empty_region" and "interrupts d = [- 1, - 1]"
  shows "SetupVfioDevice (device_env f c) d h =
     Inr (d\<lparr>device_name := ''a1'', device_fd := 5,
            device_info := \<lparr>info_flags = 3, num_regions = 9, num_irqs = 5\<rparr>,
            regions := regions attached_device, interrupts := [- 1, - 1]\<rparr>,
          h\<lparr>open_fds := [5, 4, 3, 0, 1, 2],
             trace := trace h @ [Ioctl 3 (VFIO_GROUP_GET_DEVICE_FD ''a1'') 5, Ioctl 5 VFIO_DEVICE_GET_INFO 0,
       Ioctl 5 (VFIO_DEVICE_GET_REGION_INFO 0 32) 0, Ioctl 5 (VFIO_DEVICE_GET_REGION_INFO 0 64) 0,
       Ioctl 5 (VFIO_DEVICE_GET_REGION_INFO 1 32) 0, Ioctl 5 (VFIO_DEVICE_GET_REGION_INFO 2 32) 0,
       Ioctl 5 (VFIO_DEVICE_GET_REGION_INFO 3 32) 0, Ioctl 5 (VFIO_DEVICE_GET_REGION_INFO 4 32) 0,
       Ioctl 5 (VFIO_DEVICE_GET_REGION_INFO 5 32) 0, Ioctl 5 (VFIO_DEVICE_GET_REGION_INFO 6 32) 0,
       Ioctl 5 (VFIO_DEVICE_GET_REGION_INFO 7 32) 0, Ioctl 5 (VFIO_DEVICE_GET_REGION_INFO 8 32) 0,
       Ioctl 5 (VFIO_DEVICE_GET_IRQ_INFO 0) 0, Ioctl 5 (VFIO_DEVICE_GET_IRQ_INFO 1) 0,
       Ioctl 5 (VFIO_DEVICE_GET_IRQ_INFO 2) 0, Ioctl 5 (VFIO_DEVICE_GET_IRQ_INFO 3) 0,
       Ioctl 5 (VFIO_DEVICE_GET_IRQ_INFO 4) 0]\<rparr>)"
  using assms
  by (simp add: SetupVfioDevice_def Let_def group_link sys_get_device_fd_def new_fd_def
        lowest_free_example device_env_fields assert_ioctl_def sys_ioctl_def log_event_def
        VFIO_DEVICE_FLAGS_RESET_def VFIO_DEVICE_FLAGS_PCI_def VFIO_PCI_CONFIG_REGION_INDEX_def
        VFIO_PCI_MSIX_IRQ_INDEX_def VFIO_PCI_BAR0_REGION_INDEX_def index_lists
        find_regions_device_env find_interrupts_device_env
        del: find_regions.simps find_interrupts.simps)

lemma example_config_length: "length example_config = 256"
  by (simp add: example_config_def)

lemma sys_pread_device_env:
  assumes "5 \<in> set (open_fds h)" and "length c = 256"
  shows "sys_pread (device_env f c) h 5 256 0x70000000000 =
     ((256, c), h\<lparr>trace := trace h @ [Pread 5 256 0x70000000000 256]\<rparr>)"
  using assms by (simp add: sys_pread_def Let_def device_env_fields log_event_def)

lemma attached_regions_sizes:
  "length (regions attached_device) = 9"
  "region_size (regions attached_device ! 0) = 0x1000000"
  "region_size (regions attached_device ! Suc 0) = 0"
  "region_size (regions attached_device ! 2) = 0"
  "region_size (regions attached_device ! 3) = 0"
  "region_size (regions attached_device ! 4) = 0"
  "region_size (regions attached_device ! 5) = 0"
  "region_size (regions attached_device ! 7) = 256"
  "region_offset (regions attached_device ! 7) = 0x70000000000"
  by (simp_all add: attached_device_def empty_region_def)

lemma SetupPciConfiguration_example:
  assumes "5 \<in> set (open_fds h)" and "device_fd d = 5" and "regions d = regions attached_device"
    and "pci_bars d = replicate 6 \<lparr>bar_type = kIoResourceTypeMmio, bar_size = 0, bar_address = 0, bar_host_memory = 0\<rparr>"
  shows "SetupPciConfiguration (device_env f example_config) d h =
     Some (Inr (d\<lparr>pci_header := set_bars (sanitized example_config) 0 8,
                  pci_bars := (replicate 6 \<lparr>bar_type = kIoResourceTypeMmio, bar_size = 0, bar_address = 0, bar_host_memory = 0\<rparr>)
                    [0 := \<lparr>bar_type = kIoResourceTypeMmio, bar_size = 0x1000000, bar_address = 0, bar_host_memory = 0\<rparr>],
                  msi_config := (msi_config d)\<lparr>msi_is_64bit := True, msi_offset := 0x50, msi_is_msix := False,
                        msi_length := 14, msi64 := Some 0x50\<rparr>\<rparr>,
                h\<lparr>trace := trace h @ [Pread 5 256 0x70000000000 256,
                      Pwrite 5 (set_bars (sanitized example_config) 0 8) 0x70000000000 256]\<rparr>))"
  using assms
  by (simp add: SetupPciConfiguration_def Let_def VFIO_PCI_CONFIG_REGION_INDEX_def
        PCI_DEVICE_CONFIG_SIZE_def attached_regions_sizes sys_pread_device_env example_config_length
        set_irq_pin_def set_header_type_def header_type_def set_class_code_def sanitized_def
        PCI_MULTI_FUNCTION_def PCI_HEADER_TYPE_NORMAL_def example_config_def
        VFIO_PCI_ROM_REGION_INDEX_def index_lists bars_def get_u32_def set_bars_def set_u32_def
        PCI_BASE_ADDRESS_SPACE_IO_def PCI_BASE_ADDRESS_MEM_TYPE_64_def AddPciBar_def
        header_status_def get_u16_def PCI_STATUS_CAP_LIST_def capability_def
        walk_capabilities.simps PCI_CAP_ID_MSI_def PCI_CAP_ID_MSIX_def PCI_MSI_FLAGS_MASKBIT_def
        PCI_MSI_FLAGS_64BIT_def sizeof_MsiCapability64_def sys_pwrite_def device_env_fields log_event_def)



lemma SetupPciInterrupts_device_env:
  assumes "open_fds h = [5, 4, 3, 0, 1, 2]" and "msi64_control d = Some 0x80"
    and "msi_is_msix (msi_config d) = False" and "msi_is_64bit (msi_config d) = True"
    and "interrupts d = [- 1, - 1]"
  shows "SetupPciInterrupts (device_env f c) d h =
     Inr (d\<lparr>interrupts := [6, - 1]\<rparr>,
          h\<lparr>open_fds := [6, 5, 4, 3, 0, 1, 2], polling := 6 # polling h,
             trace := trace h @ [Eventfd 6, StartPolling 6]\<rparr>)"
  using assms
  by (simp add: SetupPciInterrupts_def nr_vectors_of_def PCI_MSI_FLAGS_QSIZE_def sys_eventfd_def
        device_env_fields new_fd_def lowest_free_example Let_def log_event_def StartPolling_io_def)

lemma SetupGfxPlane_device_env:
  assumes "device_fd d = 5" and "5 \<in> set (open_fds h)"
  shows "SetupGfxPlane (device_env f c) d h =
     Inr (d, h\<lparr>trace := trace h @ [Ioctl 5 (VFIO_DEVICE_QUERY_GFX_PLANE 5) 0]\<rparr>)"
  using assms
  by (simp add: SetupGfxPlane_def sys_ioctl_def device_env_fields Let_def log_event_def
        VFIO_GFX_PLANE_TYPE_PROBE_def VFIO_GFX_PLANE_TYPE_REGION_def)

lemma SetupDmaMaps_device_env:
  assumes "container_fd d = 4" and "4 \<in> set (open_fds h)" and "listeners h = []"
  shows "SetupDmaMaps (device_env f c) d h =
     Inr (d\<lparr>memory_listener := Some 1\<rparr>,
          h\<lparr>listeners := [1],
             trace := trace h @ [Ioctl 4 (VFIO_IOMMU_MAP_DMA 3 0x7e0000000000 0 0x80000000) 0,
                                 RegisterMemoryListener 1]\<rparr>)"
  using assms
  by (simp add: SetupDmaMaps_def device_env_fields MapDmaPages_def sys_ioctl_def Let_def
        log_event_def VFIO_DMA_MAP_FLAG_READ_def VFIO_DMA_MAP_FLAG_WRITE_def
        RegisterMemoryListener_mm_def)

lemma example_device_fields:
  "regions example_device = replicate 9 empty_region" "interrupts example_device = [- 1, - 1]"
  "pci_bars example_device = replicate 6 \<lparr>bar_type = kIoResourceTypeMmio, bar_size = 0, bar_address = 0,
      bar_host_memory = 0\<rparr>"
  "msi_config example_device = \<lparr>msi_is_64bit = False, msi_offset = 0, msi_is_msix = False, msi_length = 0,
                    msi_enabled = False, msi64 = None\<rparr>"
  by (simp_all add: example_device_def)

lemma example_host_fields:
  "open_fds example_host = [0, 1, 2]" "polling example_host = []" "listeners example_host = []"
  "trace example_host = []"
  by (simp_all add: example_host_def)

lemma attached_header:
  "set_bars (sanitized example_config) 0 8 =
     example_config[0x0A := 0x02, 0x0B := 0x03, 0x0E := 0, 0x10 := 0x08, 0x3D := 0]"
  by (rule nth_equalityI)
     (auto simp: set_bars_def set_u32_def sanitized_def set_class_code_def set_header_type_def
        set_irq_pin_def header_type_def example_config_def PCI_MULTI_FUNCTION_def nth_list_update)

lemma example_config_bytes:
  "example_config ! 82 = 0x80" "example_config ! 83 = 0"
  by (simp_all add: example_config_def)

lemma Connect_first_steps:
  "bind_r (SetupVfioGroup (device_env VFIO_GROUP_FLAGS_VIABLE c)
             (example_device\<lparr>sysfs_path := ''/sys/bus/mdev/devices/a1''\<rparr>)
             (log_event example_host PciDevice_Connect))
     (\<lambda>(d1, h1). bind_r (SetupVfioContainer (device_env VFIO_GROUP_FLAGS_VIABLE c) d1 h1)
        (\<lambda>(d2, h2). SetupVfioDevice (device_env VFIO_GROUP_FLAGS_VIABLE c) d2 h2)) =
   Inr (example_device\<lparr>sysfs_path := ''/sys/bus/mdev/devices/a1'', group_id := 12, group_fd := 3,
          container_fd := 4, device_name := ''a1'', device_fd := 5,
          device_info := \<lparr>info_flags = 3, num_regions = 9, num_irqs = 5\<rparr>,
          regions := regions attached_device, interrupts := [- 1, - 1]\<rparr>,
        example_host\<lparr>open_fds := [5, 4, 3, 0, 1, 2], trace := take 27 (trace attached_host)\<rparr>)"
  by (simp add: SetupVfioGroup_device_env SetupVfioContainer_device_env SetupVfioDevice_device_env
        example_host_fields example_device_fields log_event_def VFIO_GROUP_FLAGS_VIABLE_def
        attached_host_def)

lemma Connect_example:
  "Connect example_env example_key_values example_device example_host =
     Some (Inr (attached_device, attached_host))"
  by (simp add: Connect_def Let_def example_env_def example_key_values_def Connect_first_steps
        SetupPciConfiguration_example SetupPciInterrupts_device_env SetupGfxPlane_device_env
        SetupDmaMaps_device_env example_device_fields example_host_fields
        attached_header msi64_control_def get_u16_def example_config_length example_config_bytes)
     (simp add: example_device_def attached_device_def example_host_def attached_host_def)

subsection \<open>The capability walk meets MSI-X\<close>








subsection \<open>The header after attach\<close>

lemma io_bar_config_length: "length io_bar_config = 256"
  by (simp add: io_bar_config_def example_config_length)

lemma SetupPciConfiguration_io_bar_config:
  assumes "5 \<in> set (open_fds h)" and "device_fd d = 5" and "regions d = regions attached_device"
    and "pci_bars d = replicate 6 \<lparr>bar_type = kIoResourceTypeMmio, bar_size = 0, bar_address = 0, bar_host_memory = 0\<rparr>"
  shows "SetupPciConfiguration (device_env f io_bar_config) d h =
     Some (Inr (d\<lparr>pci_header := sanitized io_bar_config,
                  pci_bars := (replicate 6 \<lparr>bar_type = kIoResourceTypeMmio, bar_size = 0, bar_address = 0, bar_host_memory = 0\<rparr>)
                    [0 := \<lparr>bar_type = kIoResourceTypePio, bar_size = 0x1000000, bar_address = 0, bar_host_memory = 0\<rparr>],
                  msi_config := (msi_config d)\<lparr>msi_is_64bit := True, msi_offset := 0x50, msi_is_msix := False,
                        msi_length := 14, msi64 := Some 0x50\<rparr>\<rparr>,
                h\<lparr>trace := trace h @ [Pread 5 256 0x70000000000 256,
                      Pwrite 5 (sanitized io_bar_config) 0x70000000000 256]\<rparr>))"
  using assms
  by (simp add: SetupPciConfiguration_def Let_def VFIO_PCI_CONFIG_REGION_INDEX_def
        PCI_DEVICE_CONFIG_SIZE_def attached_regions_sizes sys_pread_device_env io_bar_config_length
        set_irq_pin_def set_header_type_def header_type_def set_class_code_def sanitized_def
        PCI_MULTI_FUNCTION_def PCI_HEADER_TYPE_NORMAL_def example_config_def io_bar_config_def
        VFIO_PCI_ROM_REGION_INDEX_def index_lists bars_def get_u32_def set_bars_def set_u32_def
        PCI_BASE_ADDRESS_SPACE_IO_def PCI_BASE_ADDRESS_MEM_TYPE_64_def AddPciBar_def
        header_status_def get_u16_def PCI_STATUS_CAP_LIST_def capability_def
        walk_capabilities.simps PCI_CAP_ID_MSI_def PCI_CAP_ID_MSIX_def PCI_MSI_FLAGS_MASKBIT_def
        PCI_MSI_FLAGS_64BIT_def sizeof_MsiCapability64_def sys_pwrite_def device_env_fields log_event_def)

lemma io_bar_header:
  "length (sanitized io_bar_config) = 256"
  "sanitized io_bar_config ! 82 = 0x80" "sanitized io_bar_config ! 83 = 0"
  "bars (sanitized io_bar_config) 0 = 5"
  by (simp_all add: io_bar_config_length sanitized_other bars_def get_u32_def)
     (simp_all add: io_bar_config_def example_config_def)

lemma Connect_io_bar_config:
  "\<exists>d' h'. Connect (device_env VFIO_GROUP_FLAGS_VIABLE io_bar_config) example_key_values example_device
       example_host = Some (Inr (d', h'))
     \<and> regions d' = regions attached_device \<and> pci_header d' = sanitized io_bar_config"
  by (simp add: Connect_def Let_def example_key_values_def Connect_first_steps
        SetupPciConfiguration_io_bar_config SetupPciInterrupts_device_env SetupGfxPlane_device_env
        SetupDmaMaps_device_env example_device_fields example_host_fields
        msi64_control_def get_u16_def io_bar_header io_bar_config_length)

lemma Connect_header:
  assumes "Connect ev kv d h = Some (Inr (d', h'))"
  shows "length (pci_header d') = 256 \<and> irq_pin (pci_header d') = 0
         \<and> header_type (pci_header d') = PCI_HEADER_TYPE_NORMAL \<and> class_code (pci_header d') = 0x030200"
    and "\<forall>i < 6. region_size (regions d' ! i) \<noteq> 0 \<longrightarrow>
           i < length (pci_bars d') \<and> bar_size (pci_bars d' ! i) = region_size (regions d' ! i)
           \<and> (bars (pci_header d') i AND PCI_BASE_ADDRESS_SPACE_IO = 0 \<longrightarrow>
                bars (pci_header d') i AND PCI_BASE_ADDRESS_MEM_TYPE_64 = 0)"
proof -
  from Connect_steps [OF assms] obtain d3 h3 d4 h4 d5 h5 d6 h6 where
    s4: "SetupPciConfiguration ev d3 h3 = Some (Inr (d4, h4))"
    and s5: "SetupPciInterrupts ev d4 h4 = Inr (d5, h5)"
    and s6: "SetupGfxPlane ev d5 h5 = Inr (d6, h6)"
    and s7: "SetupDmaMaps ev d6 h6 = Inr (d', h')"
    by blast
  from SetupPciConfiguration_Inr [OF s4] obtain hdr bs msi where
    d4: "d4 = d3\<lparr>pci_header := hdr, pci_bars := bs, msi_config := msi\<rparr>"
    and hdr: "length hdr = 256" "irq_pin hdr = 0" "header_type hdr = PCI_HEADER_TYPE_NORMAL"
      "class_code hdr = 0x030200"
    and bs: "\<forall>i < 6. region_size (regions d3 ! i) \<noteq> 0 \<longrightarrow>
           i < length bs \<and> bar_size (bs ! i) = region_size (regions d3 ! i)
           \<and> (bars hdr i AND PCI_BASE_ADDRESS_SPACE_IO = 0 \<longrightarrow>
                bars hdr i AND PCI_BASE_ADDRESS_MEM_TYPE_64 = 0)"
    by blast
  from SetupPciInterrupts_Inr [OF s5] have
    d5: "d5 = d4\<lparr>interrupts := (interrupts d4)[0 := lowest_free (open_fds h4)]\<rparr>"
    by simp
  from s6 have d6: "d6 = d5"
    by (simp add: SetupGfxPlane_Inr)
  from SetupDmaMaps_Inr [OF s7] obtain l where d': "d' = d6\<lparr>memory_listener := Some l\<rparr>"
    by auto
  show "length (pci_header d') = 256 \<and> irq_pin (pci_header d') = 0
         \<and> header_type (pci_header d') = PCI_HEADER_TYPE_NORMAL \<and> class_code (pci_header d') = 0x030200"
    using hdr by (simp add: d' d6 d5 d4)
  show "\<forall>i < 6. region_size (regions d' ! i) \<noteq> 0 \<longrightarrow>
           i < length (pci_bars d') \<and> bar_size (pci_bars d' ! i) = region_size (regions d' ! i)
           \<and> (bars (pci_header d') i AND PCI_BASE_ADDRESS_SPACE_IO = 0 \<longrightarrow>
                bars (pci_header d') i AND PCI_BASE_ADDRESS_MEM_TYPE_64 = 0)"
    using bs by (simp add: d' d6 d5 d4)
qed

text \<open>What a guest reads after \<open>Connect\<close>: the bytes the device returns at the access.\<close>

lemma example_env_pread:
  "pread_result example_env fd n off = Some (take n (drop (unat (off - 0x70000000000)) example_config))"
  by (simp add: example_env_def device_env_def)

lemma example_config_reads:
  "take (Suc 0) (drop 0x3D example_config) = [1]"
  "take 4 (drop 0x10 example_config) = [0x0C, 0, 0, 0]"
  by code_simp+

lemma attached_header_length: "length (pci_header attached_device) = 256"
  by (simp add: attached_device_def example_config_length)

lemma guest_read_irq_pin:
  "ReadPciConfigSpace example_base_read example_env attached_device attached_host 0x3D 1 =
     Inr ([1],
          attached_device\<lparr>pci_header := take 0x3D (pci_header attached_device) @ [1] @
                                           drop 0x3E (pci_header attached_device)\<rparr>,
          attached_host\<lparr>trace := trace attached_host @ [Pread 5 1 0x7000000003D 1]\<rparr>)"
  by (simp add: ReadPciConfigSpace_def PCI_DEVICE_CONFIG_SIZE_def VFIO_PCI_CONFIG_REGION_INDEX_def
        attached_regions sys_pread_def Let_def attached_device_fields attached_host_fields
        example_env_pread example_config_reads attached_header_length example_base_read_def
        example_config_length
        log_event_def)

lemma guest_read_bar0:
  "ReadPciConfigSpace example_base_read example_env attached_device attached_host 0x10 4 =
     Inr ([0x0C, 0, 0, 0],
          attached_device\<lparr>pci_header := take 0x10 (pci_header attached_device) @ [0x0C, 0, 0, 0] @
                                           drop 0x14 (pci_header attached_device)\<rparr>,
          attached_host\<lparr>trace := trace attached_host @ [Pread 5 4 0x70000000010 4]\<rparr>)"
  by (simp add: ReadPciConfigSpace_def PCI_DEVICE_CONFIG_SIZE_def VFIO_PCI_CONFIG_REGION_INDEX_def
        attached_regions sys_pread_def Let_def attached_device_fields attached_host_fields
        example_env_pread example_config_reads attached_header_length example_base_read_def
        example_config_length
        log_event_def)

text \<open>
  Claim C1, as stated, fails in two ways. The synthesis pass clears the 64-bit type bit
  (bit 2) only in the branch for memory BARs: with BAR0 = 0x05 in the device's config
  space (I/O space), \<open>Connect\<close> succeeds and the header it leaves has bit 2 of BAR0
  set. And the header \<open>Connect\<close> leaves is not what the guest sees:
  \<^verbatim>\<open>ReadPciConfigSpace\<close> reads the addressed bytes from the device into the header
  before the base model answers, so on the concrete device, whose header after
  \<open>Connect\<close> has \<open>irq_pin\<close> 0 and BAR0 = 0x08, a guest read of \<open>irq_pin\<close> returns 1
  and a guest read of BAR0 returns 0x0C.
\<close>

theorem Connect_header_sanity_fails_counterexample:
  "(\<exists>d' h'. Connect (device_env VFIO_GROUP_FLAGS_VIABLE io_bar_config) example_key_values example_device
        example_host = Some (Inr (d', h'))
      \<and> region_size (regions d' ! 0) = 0x1000000
      \<and> bars (pci_header d') 0 = 0x05
      \<and> bars (pci_header d') 0 AND PCI_BASE_ADDRESS_MEM_TYPE_64 = 0x04)
   \<and> Connect example_env example_key_values example_device example_host =
        Some (Inr (attached_device, attached_host))
   \<and> irq_pin (pci_header attached_device) = 0
   \<and> bars (pci_header attached_device) 0 = 0x08
   \<and> (\<exists>d2 h2. ReadPciConfigSpace example_base_read example_env attached_device attached_host 0x3D 1 =
          Inr ([1], d2, h2)
        \<and> irq_pin (pci_header d2) = 1)
   \<and> (\<exists>d2 h2. ReadPciConfigSpace example_base_read example_env attached_device attached_host 0x10 4 =
          Inr ([0x0C, 0, 0, 0], d2, h2)
        \<and> bars (pci_header d2) 0 = 0x0C
        \<and> bars (pci_header d2) 0 AND PCI_BASE_ADDRESS_MEM_TYPE_64 = 0x04)"
proof -
  from Connect_io_bar_config obtain d' h' where
    "Connect (device_env VFIO_GROUP_FLAGS_VIABLE io_bar_config) example_key_values example_device
       example_host = Some (Inr (d', h'))"
    and "regions d' = regions attached_device" and "pci_header d' = sanitized io_bar_config"
    by blast
  then have io: "\<exists>d' h'. Connect (device_env VFIO_GROUP_FLAGS_VIABLE io_bar_config) example_key_values
        example_device example_host = Some (Inr (d', h'))
      \<and> region_size (regions d' ! 0) = 0x1000000
      \<and> bars (pci_header d') 0 = 0x05
      \<and> bars (pci_header d') 0 AND PCI_BASE_ADDRESS_MEM_TYPE_64 = 0x04"
    by (simp add: attached_regions_sizes io_bar_header PCI_BASE_ADDRESS_MEM_TYPE_64_def)
  have held: "irq_pin (pci_header attached_device) = 0" "bars (pci_header attached_device) 0 = 0x08"
    by (simp_all add: irq_pin_def bars_def get_u32_def attached_device_def example_config_def)
  have pin: "irq_pin (take 0x3D (pci_header attached_device) @
                      1 # drop 0x3E (pci_header attached_device)) = 1"
    by (simp add: irq_pin_def nth_append attached_header_length)
  have bar: "bars (take 0x10 (pci_header attached_device) @
                   0x0C # 0 # 0 # 0 # drop 0x14 (pci_header attached_device)) 0 = 0x0C"
    by (simp add: bars_def get_u32_def nth_append attached_header_length)
  show ?thesis
    using io held
    by (simp add: Connect_example guest_read_irq_pin guest_read_bar0 pin bar
          PCI_BASE_ADDRESS_MEM_TYPE_64_def)
qed

text \<open>
  Claim C1, amended to the header that the device object holds when \<open>Connect\<close>
  returns (\<^verbatim>\<open>pci_header_\<close>) and to memory-space BARs. Whenever \<open>Connect\<close>
  returns normally, that header has 256 bytes, \<open>irq_pin\<close> 0, the multi-function bit
  of \<open>header_type\<close> clear (the header type is exactly \<^verbatim>\<open>PCI_HEADER_TYPE_NORMAL\<close>),
  \<open>class_code\<close> 0x030200, and each of the six BARs whose region has a non-zero size
  and whose I/O-space bit is clear has the 64-bit type bit clear.
\<close>

theorem Connect_header_sanity:
  assumes "Connect ev kv d h = Some (Inr (d', h'))"
  shows "length (pci_header d') = 256
     \<and> irq_pin (pci_header d') = 0
     \<and> header_type (pci_header d') AND PCI_MULTI_FUNCTION = 0
     \<and> class_code (pci_header d') = 0x030200
     \<and> (\<forall>i < 6. region_size (regions d' ! i) \<noteq> 0 \<longrightarrow>
           bars (pci_header d') i AND PCI_BASE_ADDRESS_SPACE_IO = 0 \<longrightarrow>
           bars (pci_header d') i AND PCI_BASE_ADDRESS_MEM_TYPE_64 = 0)"
  using Connect_header [OF assms]
  by (simp add: PCI_HEADER_TYPE_NORMAL_def)

theorem Connect_header_sanity_witness:
  "Connect example_env example_key_values example_device example_host =
     Some (Inr (attached_device, attached_host))
   \<and> bars example_config 0 = 0x0C
   \<and> region_size (regions attached_device ! 0) = 0x1000000
   \<and> irq_pin (pci_header attached_device) = 0
   \<and> header_type (pci_header attached_device) AND PCI_MULTI_FUNCTION = 0
   \<and> class_code (pci_header attached_device) = 0x030200
   \<and> bars (pci_header attached_device) 0 = 0x08
   \<and> bars (pci_header attached_device) 0 AND PCI_BASE_ADDRESS_MEM_TYPE_64 = 0"
proof -
  have bar: "bars example_config 0 = 0x0C" "bars (pci_header attached_device) 0 = 0x08"
    by (simp_all add: bars_def get_u32_def attached_device_def example_config_def)
  have io: "bars (pci_header attached_device) 0 AND PCI_BASE_ADDRESS_SPACE_IO = 0"
    by (simp add: bar PCI_BASE_ADDRESS_SPACE_IO_def)
  from Connect_header_sanity [OF Connect_example] have header:
    "irq_pin (pci_header attached_device) = 0"
    "header_type (pci_header attached_device) AND PCI_MULTI_FUNCTION = 0"
    "class_code (pci_header attached_device) = 0x030200"
    and memory_bars: "\<forall>i < 6. region_size (regions attached_device ! i) \<noteq> 0 \<longrightarrow>
           bars (pci_header attached_device) i AND PCI_BASE_ADDRESS_SPACE_IO = 0 \<longrightarrow>
           bars (pci_header attached_device) i AND PCI_BASE_ADDRESS_MEM_TYPE_64 = 0"
    by simp_all
  from memory_bars [rule_format, of 0] io
  have "bars (pci_header attached_device) 0 AND PCI_BASE_ADDRESS_MEM_TYPE_64 = 0"
    by (simp add: attached_regions_sizes)
  with header show ?thesis
    by (simp add: Connect_example bar attached_regions_sizes)
qed

subsection \<open>Detach\<close>

lemma close_interrupts_unset:
  "close_interrupts h (replicate n (- 1)) = (replicate n (- 1), h)"
  by (induction n) simp_all

lemma close_interrupts_first:
  assumes "0 < e"
  shows "close_interrupts h (e # replicate n (- 1)) =
     (replicate (Suc n) (- 1), sys_close (StopPolling_io h e) e)"
  using assms by (simp add: safe_close_def close_interrupts_unset)

lemma unset_first:
  assumes "fds \<noteq> []"
  shows "(map (\<lambda>i. - 1) fds)[0 := e] = e # replicate (length fds - 1) (- 1 :: int)"
  using assms by (cases fds) (simp_all add: map_replicate_const)

lemma Disconnect_after_attach:
  assumes "interrupts d = e # replicate n (- 1)" and "memory_listener d = Some l"
    and "0 < e" and "0 \<le> device_fd d" and "0 \<le> container_fd d" and "0 \<le> group_fd d"
  shows "Disconnect d h =
     (d\<lparr>interrupts := replicate (Suc n) (- 1), device_fd := - 1, container_fd := - 1, group_fd := - 1\<rparr>,
      h\<lparr>open_fds := removeAll (group_fd d) (removeAll (container_fd d) (removeAll (device_fd d)
                      (removeAll e (open_fds h)))),
        polling := removeAll e (polling h),
        listeners := removeAll l (listeners h),
        trace := trace h @ [UnregisterMemoryListener l, StopPolling e, Close e, Close (device_fd d),
                   Close (container_fd d), Close (group_fd d), PciDevice_Disconnect]\<rparr>)"
  using assms
  by (simp add: Disconnect_def close_interrupts_first safe_close_def sys_close_def StopPolling_io_def
        UnregisterMemoryListener_mm_def log_event_def Let_def del: close_interrupts.simps replicate.simps)

text \<open>
  Claim C8. Let \<open>Connect\<close> have attached the device, and let \<open>(d2, h2)\<close> be any
  later state that holds the same descriptors, eventfds and listener, with the same
  descriptors open and polled (config accesses and BAR activations change none of
  these). The device has one eventfd \<open>e\<close> (vector 0), and \<open>Disconnect\<close> does, in this
  order: unregister the memory listener, stop polling \<open>e\<close>, close \<open>e\<close>, close
  \<open>device_fd\<close>, \<open>container_fd\<close>, \<open>group_fd\<close>, then the base model's disconnect.
  Afterwards exactly the descriptors that were open before \<open>Connect\<close> are open, the
  reactor polls what it polled before (nothing that is closed), the listener is gone,
  and the device holds -1 in every descriptor field. A new descriptor is the lowest
  free one, so the eventfd, opened while the group descriptor is open, is positive and
  passes the \<^verbatim>\<open>event_fd > 0\<close> test of the source.
\<close>

theorem Disconnect_reverses_attach:
  assumes "Connect ev kv d h = Some (Inr (d1, h1))"
    and "\<forall>fd \<in> set (open_fds h). 0 \<le> fd"
    and "set (polling h) \<subseteq> set (open_fds h)"
    and "memory_listener d2 = memory_listener d1 \<and> interrupts d2 = interrupts d1
         \<and> device_fd d2 = device_fd d1 \<and> container_fd d2 = container_fd d1
         \<and> group_fd d2 = group_fd d1"
    and "open_fds h2 = open_fds h1 \<and> polling h2 = polling h1 \<and> listeners h2 = listeners h1"
  shows "\<exists>l e. memory_listener d2 = Some l \<and> interrupts d2 ! 0 = e \<and> 0 < e
     \<and> trace (snd (Disconnect d2 h2)) =
         trace h2 @ [UnregisterMemoryListener l, StopPolling e, Close e, Close (device_fd d2),
                     Close (container_fd d2), Close (group_fd d2), PciDevice_Disconnect]
     \<and> open_fds (snd (Disconnect d2 h2)) = open_fds h
     \<and> polling (snd (Disconnect d2 h2)) = polling h
     \<and> set (polling (snd (Disconnect d2 h2))) \<subseteq> set (open_fds (snd (Disconnect d2 h2)))
     \<and> listeners (snd (Disconnect d2 h2)) = listeners h
     \<and> set (interrupts (fst (Disconnect d2 h2))) = {- 1}
     \<and> device_fd (fst (Disconnect d2 h2)) = - 1
     \<and> container_fd (fst (Disconnect d2 h2)) = - 1
     \<and> group_fd (fst (Disconnect d2 h2)) = - 1"
proof -
  let ?fds = "open_fds h"
  let ?g = "group_fd d2" and ?c = "container_fd d2" and ?v = "device_fd d2"
  let ?e = "lowest_free (?v # ?c # ?g # ?fds)"
  note attached = Connect_Inr [OF assms(1,2)]
  have g: "?g = lowest_free ?fds" and c: "?c = lowest_free (?g # ?fds)"
    and v: "?v = lowest_free (?c # ?g # ?fds)"
    using attached(1-3) assms(4) by simp_all
  have fresh: "?g \<notin> set ?fds" "?c \<notin> set (?g # ?fds)" "?v \<notin> set (?c # ?g # ?fds)"
    "?e \<notin> set (?v # ?c # ?g # ?fds)"
    using lowest_free_fresh [of ?fds] lowest_free_fresh [of "?g # ?fds"]
      lowest_free_fresh [of "?c # ?g # ?fds"] lowest_free_fresh [of "?v # ?c # ?g # ?fds"] g c v
    by simp_all
  have nonneg: "0 \<le> ?g" "0 \<le> ?c" "0 \<le> ?v"
    using lowest_free_nonneg [of ?fds] lowest_free_nonneg [of "?g # ?fds"]
      lowest_free_nonneg [of "?c # ?g # ?fds"] g c v
    by simp_all
  have "lowest_free ?fds \<in> set (?v # ?c # ?g # ?fds)"
    using g by simp
  then have pos: "0 < ?e"
    by (rule later_fd_positive) auto
  from attached(8) assms(4,5) obtain l where l: "memory_listener d2 = Some l"
    "l \<notin> set (listeners h)" "listeners h2 = l # listeners h"
    by auto
  have irqs: "interrupts d2 = ?e # replicate (length (interrupts d) - 1) (- 1)"
    using attached(4,5) assms(4) by (simp add: unset_first)
  have unpolled: "?e \<notin> set (polling h)"
    using fresh(4) assms(3) by auto
  have opened: "open_fds h2 = ?e # ?v # ?c # ?g # ?fds" "polling h2 = ?e # polling h"
    using attached(6,7) assms(4,5) by simp_all
  have after: "Disconnect d2 h2 =
     (d2\<lparr>interrupts := replicate (Suc (length (interrupts d) - 1)) (- 1), device_fd := - 1,
          container_fd := - 1, group_fd := - 1\<rparr>,
      h2\<lparr>open_fds := removeAll ?g (removeAll ?c (removeAll ?v (removeAll ?e (open_fds h2)))),
         polling := removeAll ?e (polling h2),
         listeners := removeAll l (listeners h2),
         trace := trace h2 @ [UnregisterMemoryListener l, StopPolling ?e, Close ?e, Close ?v,
                   Close ?c, Close ?g, PciDevice_Disconnect]\<rparr>)"
    using Disconnect_after_attach [OF irqs l(1) pos nonneg(3) nonneg(2) nonneg(1)] .
  have fds: "removeAll ?g (removeAll ?c (removeAll ?v (removeAll ?e (open_fds h2)))) = ?fds"
    using fresh opened(1) by (simp add: removeAll_id)
  have polls: "removeAll ?e (polling h2) = polling h"
    using unpolled opened(2) by (simp add: removeAll_id)
  have ls: "removeAll l (listeners h2) = listeners h"
    using l by (simp add: removeAll_id)
  show ?thesis
    unfolding after fds polls ls
    using l(1) irqs pos assms(3) by (simp del: replicate.simps)
qed

theorem Disconnect_reverses_attach_witness:
  "Connect example_env example_key_values example_device example_host =
     Some (Inr (attached_device, attached_host))
   \<and> trace (snd (Disconnect programmed_device attached_host)) =
       trace attached_host @ [UnregisterMemoryListener 1, StopPolling 6, Close 6, Close 5, Close 4,
                              Close 3, PciDevice_Disconnect]
   \<and> open_fds (snd (Disconnect programmed_device attached_host)) = [0, 1, 2]
   \<and> polling (snd (Disconnect programmed_device attached_host)) = []
   \<and> listeners (snd (Disconnect programmed_device attached_host)) = []
   \<and> interrupts (fst (Disconnect programmed_device attached_host)) = [- 1, - 1]"
proof -
  have host: "\<forall>fd \<in> set (open_fds example_host). 0 \<le> fd"
    "set (polling example_host) \<subseteq> set (open_fds example_host)"
    by (simp_all add: example_host_fields)
  have later: "memory_listener programmed_device = memory_listener attached_device
      \<and> interrupts programmed_device = interrupts attached_device
      \<and> device_fd programmed_device = device_fd attached_device
      \<and> container_fd programmed_device = container_fd attached_device
      \<and> group_fd programmed_device = group_fd attached_device"
    "open_fds attached_host = open_fds attached_host \<and> polling attached_host = polling attached_host
      \<and> listeners attached_host = listeners attached_host"
    by (simp_all add: programmed_device_def)
  have fields: "memory_listener programmed_device = Some 1" "interrupts programmed_device = [6, - 1]"
    "device_fd programmed_device = 5" "container_fd programmed_device = 4"
    "group_fd programmed_device = 3"
    by (simp_all add: programmed_device_def attached_device_fields)
  from Disconnect_reverses_attach [OF Connect_example host later]
  have "trace (snd (Disconnect programmed_device attached_host)) =
       trace attached_host @ [UnregisterMemoryListener 1, StopPolling 6, Close 6, Close 5, Close 4,
                              Close 3, PciDevice_Disconnect]"
    and "open_fds (snd (Disconnect programmed_device attached_host)) = [0, 1, 2]"
    and "polling (snd (Disconnect programmed_device attached_host)) = []"
    and "listeners (snd (Disconnect programmed_device attached_host)) = []"
    by (auto simp: fields example_host_fields)
  moreover have "interrupts (fst (Disconnect programmed_device attached_host)) = [- 1, - 1]"
    by (simp add: Disconnect_def fields safe_close_def split_def Let_def)
  ultimately show ?thesis
    by (simp add: Connect_example)
qed

subsection \<open>A group that is not viable\<close>






subsection \<open>BAR activation by kind of region\<close>

text \<open>
  After \<open>Connect\<close>, every BAR whose region has a flag set has the size of its region:
  \<^verbatim>\<open>SetupVfioDevice\<close> stores flags only for regions of non-zero size, and
  \<^verbatim>\<open>SetupPciConfiguration\<close> registers each such BAR with \<^verbatim>\<open>region.size\<close>.
\<close>

lemma Connect_bar_sizes:
  assumes "Connect ev kv d h = Some (Inr (d', h'))" and "\<forall>fd \<in> set (open_fds h). 0 \<le> fd"
    and "index < 6" and "region_flags (regions d' ! index) \<noteq> 0"
  shows "index < length (regions d') \<and> index < length (pci_bars d')
     \<and> bar_size (pci_bars d' ! index) = region_size (regions d' ! index)"
proof -
  note attached = Connect_Inr [OF assms(1,2)]
  have len: "index < length (regions d')"
    using attached(11) assms(3) by (simp add: VFIO_PCI_CONFIG_REGION_INDEX_def)
  then have "regions d' ! index \<in> set (regions d')"
    by simp
  with attached(12) assms(4) have "region_size (regions d' ! index) \<noteq> 0"
    by blast
  with attached(13) assms(3) len show ?thesis
    by simp
qed



end
